theory Spec2Isabelle
  imports Complex_Main
begin

section \<open>Common types\<close>

text \<open>
  Addresses, identifiers, transaction hashes and error messages are strings in the
  TypeScript source. JavaScript numbers are modelled as exact real numbers (rounding of
  IEEE doubles is not modelled); on-chain integer amounts and the nonce are natural
  numbers. A call that can throw returns a sum: \<open>Inl\<close> carries the message of the
  thrown error, \<open>Inr\<close> the value.
\<close>

type_synonym address = string
type_synonym number = real

section \<open>Nonce coordinator (\<open>SafeModuleService.getNextNonce\<close>)\<close>

text \<open>
  \<open>nonceTracker\<close> is the static map of \<open>SafeModuleService\<close> from executor address to
  the last nonce handed out. The second static map, \<open>nonceLocks\<close>, serializes the
  callers: each call waits until no lock is stored for the address, stores its own and
  deletes it in its \<open>finally\<close> block. The model is of serialized calls, where the lock
  is free at every entry, so it carries the tracker only.

  The argument \<open>net\<close> is what \<open>provider.getTransactionCount(address, 'latest')\<close> does
  in this call: \<open>Inr n\<close> returns the count \<open>n\<close>, \<open>Inl e\<close> throws, and then the cache
  is left as it was.
\<close>

type_synonym nonceTracker = "address \<rightharpoonup> nat"

definition getNextNonce ::
  "address \<Rightarrow> string + nat \<Rightarrow> nonceTracker \<Rightarrow> (string + nat) \<times> nonceTracker" where
  "getNextNonce a net t =
     (case t a of
        None \<Rightarrow>
          (case net of
             Inl e \<Rightarrow> (Inl e, t)
           | Inr n \<Rightarrow> (Inr n, t(a \<mapsto> n)))
      | Some cached \<Rightarrow>
          (let nonce = cached + 1 in
           case net of
             Inl e \<Rightarrow> (Inl e, t)
           | Inr networkNonce \<Rightarrow>
               (let nonce' = (if networkNonce > nonce then networkNonce else nonce)
                in (Inr nonce', t(a \<mapsto> nonce')))))"

text \<open>
  A sequence of serialized calls, one network behaviour per call; the results are
  collected in call order.
\<close>

fun acquireAll ::
  "address \<Rightarrow> (string + nat) list \<Rightarrow> nonceTracker \<Rightarrow> (string + nat) list \<times> nonceTracker" where
  "acquireAll a [] t = ([], t)"
| "acquireAll a (net # nets) t =
     (case getNextNonce a net t of (r, t') \<Rightarrow>
        (case acquireAll a nets t' of (rs, t'') \<Rightarrow> (r # rs, t'')))"

text \<open>The nonces actually handed out: the calls that returned rather than threw.\<close>

fun issued :: "(string + nat) list \<Rightarrow> nat list" where
  "issued [] = []"
| "issued (Inl e # rs) = issued rs"
| "issued (Inr n # rs) = n # issued rs"

text \<open>
  The specification's rule, written from its words: after a nonce \<open>cached\<close>, each further
  acquisition returns the maximum of \<open>cached + 1\<close> and the on-chain count read then.
\<close>

fun nonce_spec :: "nat \<Rightarrow> nat list \<Rightarrow> nat list" where
  "nonce_spec cached [] = []"
| "nonce_spec cached (n # ns) = max (cached + 1) n # nonce_spec (max (cached + 1) n) ns"

section \<open>On-chain execution gateway (\<open>SafeModuleService\<close>)\<close>

subsection \<open>Module calls and the chain\<close>

text \<open>
  A call on the module contract, with the arguments in the order of \<open>MODULE_ABI\<close>:
  \<^item> \<open>ExecuteTrade safe tokenIn tokenOut amountIn minAmountOut poolFee profitReceiver\<close>
  \<^item> \<open>ExecuteTradeWithIntent safe signalHash creatorAddress tokenIn tokenOut amountIn
    minAmountOut poolFee\<close> (the two optional fields of \<open>TradeParams\<close> are passed as
    they are)
  \<^item> \<open>ClosePosition safe tokenIn tokenOut amountIn minAmountOut poolFee agentOwner
    entryValueUSDC\<close>
  \<^item> \<open>ExecuteFromModule safe to value data\<close>
  \<^item> \<open>SetTokenWhitelist safe token enabled\<close>
  \<^item> \<open>InitializeCapital safe\<close>
\<close>

datatype module_call =
    ExecuteTrade address address address nat nat nat address
  | ExecuteTradeWithIntent address "string option" "string option" address address nat nat nat
  | ClosePosition address address address nat nat nat address nat
  | ExecuteFromModule address address nat string
  | SetTokenWhitelist address address bool
  | InitializeCapital address

text \<open>A submitted transaction: the call and the overrides object (gas limit, nonce).\<close>

record tx_request =
  call :: module_call
  gasLimit :: "nat option"
  nonce :: "nat option"

text \<open>
  What the code reads of a receipt: the hash, the status, and the \<open>amountOut\<close> argument
  of the \<open>TradeExecuted\<close> event when the receipt has one.
\<close>

record receipt =
  transactionHash :: string
  status :: nat
  tradeAmountOut :: "nat option"

text \<open>
  The chain as the services see it through their provider and contract objects. Every
  answer may depend on the transactions submitted so far, and every call may throw.
  \<open>submit\<close> stands for sending the transaction and awaiting \<open>tx.wait()\<close>;
  \<open>allowance\<close> and \<open>balanceOf\<close> take the token first; \<open>isModuleEnabled\<close> is the Safe's
  own answer for the trading module.
\<close>

record chain =
  getTransactionCount :: "tx_request list \<Rightarrow> address \<Rightarrow> string + nat"
  submit :: "tx_request list \<Rightarrow> tx_request \<Rightarrow> string + receipt"
  isTokenWhitelisted :: "tx_request list \<Rightarrow> address \<Rightarrow> address \<Rightarrow> string + bool"
  statsInitialized :: "tx_request list \<Rightarrow> address \<Rightarrow> string + bool"
  allowance :: "tx_request list \<Rightarrow> address \<Rightarrow> address \<Rightarrow> address \<Rightarrow> string + nat"
  balanceOf :: "tx_request list \<Rightarrow> address \<Rightarrow> address \<Rightarrow> string + nat"
  isModuleEnabled :: "tx_request list \<Rightarrow> address \<Rightarrow> string + bool"

text \<open>
  The state the gateway changes: the static nonce tracker, and the log of the
  transactions it has handed to the chain, oldest first.
\<close>

record gw_state =
  tracker :: nonceTracker
  txlog :: "tx_request list"

definition nextNonce :: "chain \<Rightarrow> address \<Rightarrow> gw_state \<Rightarrow> (string + nat) \<times> gw_state" where
  "nextNonce ch ex st =
     (case getNextNonce ex (getTransactionCount ch (txlog st) ex) (tracker st) of
        (r, t') \<Rightarrow> (r, st\<lparr>tracker := t'\<rparr>))"

definition sendTx :: "chain \<Rightarrow> tx_request \<Rightarrow> gw_state \<Rightarrow> (string + receipt) \<times> gw_state" where
  "sendTx ch tx st = (submit ch (txlog st) tx, st\<lparr>txlog := txlog st @ [tx]\<rparr>)"

subsection \<open>Parameters and results\<close>

record TradeParams =
  safeAddress :: address
  fromToken :: address
  toToken :: address
  amountIn :: nat
  dexRouter :: address
  swapData :: string
  minAmountOut :: nat
  profitReceiver :: address
  signalHash :: "string option"
  creatorAddress :: "string option"

text \<open>The parameter object of \<open>closePosition\<close>; its fields carry the prefix \<open>cp_\<close>.\<close>

record ClosePositionParams =
  cp_safeAddress :: address
  cp_tokenIn :: address
  cp_tokenOut :: address
  cp_amountIn :: nat
  cp_minAmountOut :: nat
  cp_profitReceiver :: address
  cp_entryValueUSDC :: nat

text \<open>
  \<open>TradeResult\<close>, also used for the smaller result objects \<open>{success, txHash?, error?}\<close>
  of the setup operations. The fields carry the prefix \<open>tr_\<close>.
\<close>

record TradeResult =
  tr_success :: bool
  tr_txHash :: "string option"
  tr_amountOut :: "nat option"
  tr_feeCharged :: "string option"
  tr_profitShare :: "string option"
  tr_error :: "string option"

definition tradeFailure :: "string \<Rightarrow> TradeResult" where
  "tradeFailure e =
     \<lparr>tr_success = False, tr_txHash = None, tr_amountOut = None, tr_feeCharged = None,
      tr_profitShare = None, tr_error = Some e\<rparr>"

definition setupSuccess :: "string \<Rightarrow> TradeResult" where
  "setupSuccess h =
     \<lparr>tr_success = True, tr_txHash = Some h, tr_amountOut = None, tr_feeCharged = None,
      tr_profitShare = None, tr_error = None\<rparr>"

text \<open>JavaScript's \<open>a || b\<close> on a string and on an optional string: the empty string is falsy.\<close>

definition msg_or :: "string \<Rightarrow> string \<Rightarrow> string" where
  "msg_or e d = (if e = [] then d else e)"

definition truthy :: "string option \<Rightarrow> bool" where
  "truthy s = (case s of None \<Rightarrow> False | Some x \<Rightarrow> x \<noteq> [])"

subsection \<open>Operations\<close>

text \<open>
  Each operation is given the chain and the executor's address and passes the gateway
  state on. An error thrown while the nonce is acquired or the transaction is sent is
  caught and reported in the result. \<open>SafeModuleService.closePosition\<close> is named
  \<open>closePositionOnChain\<close> here, the coordinator having a \<open>closePosition\<close> of its own.
\<close>

definition executeTradeWithIntent ::
  "chain \<Rightarrow> address \<Rightarrow> TradeParams \<Rightarrow> gw_state \<Rightarrow> TradeResult \<times> gw_state" where
  "executeTradeWithIntent ch ex params st =
     (let poolFee = 3000 in
      case nextNonce ch ex st of
        (Inl e, st1) \<Rightarrow> (tradeFailure (msg_or e ''Trade with intent execution failed''), st1)
      | (Inr n, st1) \<Rightarrow>
          (case sendTx ch
                  \<lparr>call = ExecuteTradeWithIntent (safeAddress params) (signalHash params)
                            (creatorAddress params) (fromToken params) (toToken params)
                            (amountIn params) (minAmountOut params) poolFee,
                   gasLimit = Some 1000000, nonce = Some n\<rparr> st1 of
             (Inl e, st2) \<Rightarrow>
               (tradeFailure (msg_or e ''Trade with intent execution failed''), st2)
           | (Inr rc, st2) \<Rightarrow>
               (\<lparr>tr_success = True, tr_txHash = Some (transactionHash rc),
                 tr_amountOut = tradeAmountOut rc, tr_feeCharged = Some ''200000'',
                 tr_profitShare = None, tr_error = None\<rparr>, st2)))"

definition executeTrade ::
  "chain \<Rightarrow> address \<Rightarrow> TradeParams \<Rightarrow> gw_state \<Rightarrow> TradeResult \<times> gw_state" where
  "executeTrade ch ex params st =
     (if truthy (signalHash params) \<and> truthy (creatorAddress params)
      then executeTradeWithIntent ch ex params st
      else
        (let poolFee = 3000 in
         case nextNonce ch ex st of
           (Inl e, st1) \<Rightarrow> (tradeFailure (msg_or e ''Trade execution failed''), st1)
         | (Inr n, st1) \<Rightarrow>
             (case sendTx ch
                     \<lparr>call = ExecuteTrade (safeAddress params) (fromToken params)
                               (toToken params) (amountIn params) (minAmountOut params)
                               poolFee (profitReceiver params),
                      gasLimit = Some 1000000, nonce = Some n\<rparr> st1 of
                (Inl e, st2) \<Rightarrow> (tradeFailure (msg_or e ''Trade execution failed''), st2)
              | (Inr rc, st2) \<Rightarrow>
                  (\<lparr>tr_success = True, tr_txHash = Some (transactionHash rc),
                    tr_amountOut = tradeAmountOut rc, tr_feeCharged = Some ''200000'',
                    tr_profitShare = None, tr_error = None\<rparr>, st2))))"

definition closePositionOnChain ::
  "chain \<Rightarrow> address \<Rightarrow> ClosePositionParams \<Rightarrow> gw_state \<Rightarrow> TradeResult \<times> gw_state" where
  "closePositionOnChain ch ex params st =
     (let poolFee = 3000 in
      case nextNonce ch ex st of
        (Inl e, st1) \<Rightarrow> (tradeFailure (msg_or e ''Close position failed''), st1)
      | (Inr n, st1) \<Rightarrow>
          (case sendTx ch
                  \<lparr>call = ClosePosition (cp_safeAddress params) (cp_tokenIn params)
                            (cp_tokenOut params) (cp_amountIn params) (cp_minAmountOut params)
                            poolFee (cp_profitReceiver params) (cp_entryValueUSDC params),
                   gasLimit = Some 1000000, nonce = Some n\<rparr> st1 of
             (Inl e, st2) \<Rightarrow> (tradeFailure (msg_or e ''Close position failed''), st2)
           | (Inr rc, st2) \<Rightarrow> (setupSuccess (transactionHash rc), st2)))"

text \<open>
  \<open>initializeCapital\<close> passes no overrides: neither a gas limit nor a nonce of the
  coordinator.
\<close>

definition initializeCapital ::
  "chain \<Rightarrow> address \<Rightarrow> gw_state \<Rightarrow> TradeResult \<times> gw_state" where
  "initializeCapital ch safe st =
     (case sendTx ch \<lparr>call = InitializeCapital safe, gasLimit = None, nonce = None\<rparr> st of
        (Inl e, st1) \<Rightarrow> (tradeFailure (msg_or e ''Failed to initialize capital''), st1)
      | (Inr rc, st1) \<Rightarrow> (setupSuccess (transactionHash rc), st1))"

text \<open>The calldata of \<open>approve(dexRouter, MaxUint256)\<close>, kept symbolic.\<close>

definition approveData :: "address \<Rightarrow> string" where
  "approveData router = ''approve('' @ router @ '',MaxUint256)''"

definition approveTokenForDex ::
  "chain \<Rightarrow> address \<Rightarrow> address \<Rightarrow> address \<Rightarrow> address \<Rightarrow> gw_state \<Rightarrow> TradeResult \<times> gw_state" where
  "approveTokenForDex ch ex safe token router st =
     (case nextNonce ch ex st of
        (Inl e, st1) \<Rightarrow> (tradeFailure (msg_or e ''Approval failed''), st1)
      | (Inr n, st1) \<Rightarrow>
          (case sendTx ch
                  \<lparr>call = ExecuteFromModule safe token 0 (approveData router),
                   gasLimit = Some 300000, nonce = Some n\<rparr> st1 of
             (Inl e, st2) \<Rightarrow> (tradeFailure (msg_or e ''Approval failed''), st2)
           | (Inr rc, st2) \<Rightarrow>
               (if status rc = 1 then (setupSuccess (transactionHash rc), st2)
                else (tradeFailure ''Approval transaction reverted'', st2))))"

definition setTokenWhitelist ::
  "chain \<Rightarrow> address \<Rightarrow> address \<Rightarrow> address \<Rightarrow> bool \<Rightarrow> gw_state \<Rightarrow> TradeResult \<times> gw_state" where
  "setTokenWhitelist ch ex safe token enabled st =
     (case nextNonce ch ex st of
        (Inl e, st1) \<Rightarrow> (tradeFailure (msg_or e ''Failed to set token whitelist''), st1)
      | (Inr n, st1) \<Rightarrow>
          (case sendTx ch
                  \<lparr>call = SetTokenWhitelist safe token enabled,
                   gasLimit = Some 300000, nonce = Some n\<rparr> st1 of
             (Inl e, st2) \<Rightarrow> (tradeFailure (msg_or e ''Failed to set token whitelist''), st2)
           | (Inr rc, st2) \<Rightarrow> (setupSuccess (transactionHash rc), st2)))"

text \<open>The read-only checks; the first two swallow a thrown error and answer \<open>false\<close>.\<close>

definition checkTokenWhitelist :: "chain \<Rightarrow> address \<Rightarrow> address \<Rightarrow> gw_state \<Rightarrow> bool" where
  "checkTokenWhitelist ch safe token st =
     (case isTokenWhitelisted ch (txlog st) safe token of Inl e \<Rightarrow> False | Inr b \<Rightarrow> b)"

definition checkTokenApproval ::
  "chain \<Rightarrow> address \<Rightarrow> address \<Rightarrow> address \<Rightarrow> gw_state \<Rightarrow> bool" where
  "checkTokenApproval ch safe token spender st =
     (case allowance ch (txlog st) token safe spender of
        Inl e \<Rightarrow> False
      | Inr a \<Rightarrow> a > 100000 * 10 ^ 18)"

definition getSafeStats :: "chain \<Rightarrow> address \<Rightarrow> gw_state \<Rightarrow> string + bool" where
  "getSafeStats ch safe st = statsInitialized ch (txlog st) safe"

text \<open>The pool fee a module call carries, for the calls that swap.\<close>

fun poolFee_of :: "module_call \<Rightarrow> nat option" where
  "poolFee_of (ExecuteTrade s i out a m fee p) = Some fee"
| "poolFee_of (ExecuteTradeWithIntent s h c i out a m fee) = Some fee"
| "poolFee_of (ClosePosition s i out a m fee p e) = Some fee"
| "poolFee_of (ExecuteFromModule s t v d) = None"
| "poolFee_of (SetTokenWhitelist s t e) = None"
| "poolFee_of (InitializeCapital s) = None"

subsection \<open>A concrete chain and concrete parameters\<close>

text \<open>
  A chain on which every transaction is mined with status 1 and a \<open>TradeExecuted\<close>
  event, the executor's transaction count is the number of transactions sent so far,
  and every read succeeds. It serves to evaluate the model on concrete inputs.
\<close>

definition okReceipt :: receipt where
  "okReceipt = \<lparr>transactionHash = ''0xabc'', status = 1, tradeAmountOut = Some (2 * 10 ^ 16)\<rparr>"

definition demoChain :: chain where
  "demoChain =
     \<lparr>getTransactionCount = (\<lambda>log a. Inr (length log)),
      submit = (\<lambda>log tx. Inr okReceipt),
      isTokenWhitelisted = (\<lambda>log safe token. Inr True),
      statsInitialized = (\<lambda>log safe. Inr True),
      allowance = (\<lambda>log token owner spender. Inr 0),
      balanceOf = (\<lambda>log token owner. Inr (2 * 10 ^ 16)),
      isModuleEnabled = (\<lambda>log safe. Inr True)\<rparr>"

definition gwInit :: gw_state where
  "gwInit = \<lparr>tracker = Map.empty, txlog = []\<rparr>"

definition demoTradeParams :: TradeParams where
  "demoTradeParams =
     \<lparr>safeAddress = ''0xSafe'', fromToken = ''0xUSDC'', toToken = ''0xWETH'',
      amountIn = 50000000, dexRouter = ''0xRouter'', swapData = ''0x'',
      minAmountOut = 1, profitReceiver = ''0xCreator'',
      signalHash = Some ''0xhash'', creatorAddress = Some ''0xCreator''\<rparr>"

definition demoCloseParams :: ClosePositionParams where
  "demoCloseParams =
     \<lparr>cp_safeAddress = ''0xSafe'', cp_tokenIn = ''0xWETH'', cp_tokenOut = ''0xUSDC'',
      cp_amountIn = 2 * 10 ^ 16, cp_minAmountOut = 0, cp_profitReceiver = ''0xCreator'',
      cp_entryValueUSDC = 50000000\<rparr>"

section \<open>Store records\<close>

text \<open>
  The rows of the relational store that the coordinator and the monitor read and write,
  after the tables \<open>signals\<close>, \<open>agent_deployments\<close>, \<open>positions\<close>, \<open>venues_status\<close>,
  \<open>token_registry\<close> and \<open>billing_events\<close> of the schema. Several tables share column
  names, so the fields carry a prefix per table (\<open>sig_\<close>, \<open>dep_\<close>, \<open>pos_\<close>, ...).
  Timestamps are natural numbers. The column \<open>signals.agent_id\<close> is a foreign key that
  is never null, so the agent of a signal or deployment always resolves: \<open>agents\<close> is a
  function of the agent identifier.
\<close>

datatype venue = SPOT | GMX | HYPERLIQUID

datatype agent_status = DRAFT | ACTIVE | PAUSED

text \<open>
  The JSON documents \<open>size_model\<close>, \<open>risk_model\<close> and \<open>trailing_params\<close>. A field that
  may be absent is an option; \<open>type\<close> is a free string, as in the source.
\<close>

record SizeModel =
  sm_type :: string
  sm_value :: "number option"
  sm_baseSize :: "number option"

record RiskModel =
  rm_stopLoss :: "number option"
  rm_takeProfit :: "number option"

record TrailingParams =
  enabled :: bool
  trailingPercent :: "number option"
  highestPrice :: "number option"
  lowestPrice :: "number option"

record Signal =
  sig_id :: string
  sig_agentId :: string
  sig_tokenSymbol :: string
  sig_venue :: venue
  sig_side :: string
  sig_sizeModel :: SizeModel
  sig_riskModel :: RiskModel
  sig_signalHash :: "string option"
  sig_creatorAddress :: "string option"
  sig_proofOfIntentTxHash :: "string option"

text \<open>The agent columns the coordinator reads through \<open>signal.agent\<close> and \<open>deployment.agent\<close>.\<close>

record Agent =
  ag_id :: string
  ag_creatorWallet :: address
  ag_profitReceiverAddress :: address

record Deployment =
  dep_id :: string
  dep_agentId :: string
  dep_userWallet :: address
  dep_safeWallet :: address
  dep_moduleAddress :: "address option"
  dep_moduleEnabled :: bool
  dep_status :: agent_status
  dep_subActive :: bool

record Position =
  pos_id :: string
  pos_deploymentId :: string
  pos_signalId :: string
  pos_venue :: venue
  pos_tokenSymbol :: string
  pos_side :: string
  pos_qty :: number
  pos_entryPrice :: number
  pos_entryTxHash :: "string option"
  pos_stopLoss :: "number option"
  pos_takeProfit :: "number option"
  pos_trailingParams :: "TrailingParams option"
  pos_closedAt :: "nat option"
  pos_exitPrice :: "number option"
  pos_exitTxHash :: "string option"
  pos_pnl :: "number option"

record TokenRegistry =
  tok_chain :: string
  tok_tokenSymbol :: string
  tok_tokenAddress :: address
  tok_decimals :: nat

record VenueStatus =
  vs_venue :: venue
  vs_tokenSymbol :: string
  vs_minSize :: "number option"

record BillingEvent =
  be_positionId :: string
  be_deploymentId :: string
  be_kind :: string
  be_amount :: number
  be_txHash :: "string option"

record db =
  signals :: "Signal list"
  agents :: "string \<Rightarrow> Agent"
  deployments :: "Deployment list"
  positions :: "Position list"
  venueStatus :: "VenueStatus list"
  tokenRegistry :: "TokenRegistry list"
  billingEvents :: "BillingEvent list"

text \<open>JavaScript truthiness of an optional number, and \<open>a || b\<close> on it: zero is falsy.\<close>

definition numTruthy :: "number option \<Rightarrow> bool" where
  "numTruthy x = (case x of None \<Rightarrow> False | Some v \<Rightarrow> v \<noteq> 0)"

definition num_or :: "number option \<Rightarrow> number \<Rightarrow> number" where
  "num_or x d = (case x of None \<Rightarrow> d | Some v \<Rightarrow> if v = 0 then d else v)"

section \<open>Trade execution coordinator (\<open>TradeExecutor\<close>): opening\<close>

subsection \<open>Results and collaborators\<close>

text \<open>The summary object of the spot adapter, as far as the coordinator reads it.\<close>

record ExecutionSummary =
  es_canExecute :: bool
  es_reason :: "string option"
  es_usdcBalance :: "number option"

text \<open>The result object of \<open>preTradeValidation\<close>; the fields carry the prefix \<open>pc_\<close>.\<close>

record PreTradeCheck =
  pc_canExecute :: bool
  pc_reason :: "string option"
  pc_usdcBalance :: "number option"
  pc_tokenAvailable :: "bool option"

datatype diagnostic = SummaryOf ExecutionSummary | PreCheckOf PreTradeCheck

record ExecutionResult =
  success :: bool
  txHash :: "string option"
  positionId :: "string option"
  error :: "string option"
  reason :: "string option"
  executionSummary :: "diagnostic option"

definition failure :: "string \<Rightarrow> ExecutionResult" where
  "failure e =
     \<lparr>success = False, txHash = None, positionId = None, error = Some e, reason = None,
      executionSummary = None\<rparr>"

text \<open>
  Everything the coordinator calls that is not in its own file: the Safe wallet service,
  the spot adapter, the price oracle, the process environment, library functions for
  numbers, hashes and dates, and the chain. They are parameters of the model. A function
  that can throw returns a sum. \<open>parseUnits6 x\<close> stands for
  \<open>parseUnits(x.toFixed(6), 6)\<close>, \<open>executorOf\<close> for the construction of the module
  service, which builds the executor wallet from the private key and gives its address, \<open>intentHash\<close> for the keccak hash over the encoded intent (which
  includes \<open>Date.now()\<close>), \<open>gen_random_uuid\<close> for the store's default of the \<open>id\<close> column.
\<close>

record env =
  chainOf :: chain
  EXECUTOR_PRIVATE_KEY :: "string option"
  executorOf :: "string \<Rightarrow> string + address"
  getChainIdForVenue :: "venue \<Rightarrow> nat"
  validateSafe :: "address \<Rightarrow> nat \<Rightarrow> string + bool \<times> string"
  getUSDCBalance :: "address \<Rightarrow> nat \<Rightarrow> string + number"
  getExecutionSummary :: "Signal \<Rightarrow> address \<Rightarrow> string + ExecutionSummary"
  getQuote :: "address \<Rightarrow> address \<Rightarrow> nat \<Rightarrow> string + nat"
  calculateMinAmountOut :: "nat \<Rightarrow> nat \<Rightarrow> nat"
  buildApprovalTx :: "address \<Rightarrow> nat \<Rightarrow> string + string"
  buildSwapTx :: "address \<Rightarrow> address \<Rightarrow> nat \<Rightarrow> nat \<Rightarrow> address \<Rightarrow> string + string"
  buildCloseSwapTx :: "address \<Rightarrow> address \<Rightarrow> nat \<Rightarrow> address \<Rightarrow> string + string"
  getRouterAddress :: "nat \<Rightarrow> address option"
  parseUnits6 :: "number \<Rightarrow> nat"
  toFixed :: "nat \<Rightarrow> number \<Rightarrow> string"
  numToString :: "number \<Rightarrow> string"
  intentHash :: "Signal \<Rightarrow> Agent \<Rightarrow> nat \<Rightarrow> string + string"
  getTokenPriceUSD :: "string \<Rightarrow> number option"
  getMarketPrice :: "string \<Rightarrow> number option"
  now :: nat
  toISOString :: "nat \<Rightarrow> string"
  gen_random_uuid :: "Position list \<Rightarrow> string"

subsection \<open>Store access\<close>

definition venueName :: "venue \<Rightarrow> string" where
  "venueName v = (case v of SPOT \<Rightarrow> ''SPOT'' | GMX \<Rightarrow> ''GMX'' | HYPERLIQUID \<Rightarrow> ''HYPERLIQUID'')"

definition findSignal :: "db \<Rightarrow> string \<Rightarrow> Signal option" where
  "findSignal d i = find (\<lambda>s. sig_id s = i) (signals d)"

definition findDeployment :: "db \<Rightarrow> string \<Rightarrow> Deployment option" where
  "findDeployment d i = find (\<lambda>x. dep_id x = i) (deployments d)"

definition findPosition :: "db \<Rightarrow> string \<Rightarrow> Position option" where
  "findPosition d i = find (\<lambda>p. pos_id p = i) (positions d)"

definition findPositionFor :: "db \<Rightarrow> string \<Rightarrow> string \<Rightarrow> Position option" where
  "findPositionFor d deploymentId signalId =
     find (\<lambda>p. pos_deploymentId p = deploymentId \<and> pos_signalId p = signalId) (positions d)"

definition findVenueStatus :: "db \<Rightarrow> venue \<Rightarrow> string \<Rightarrow> VenueStatus option" where
  "findVenueStatus d v symb = find (\<lambda>r. vs_venue r = v \<and> vs_tokenSymbol r = symb) (venueStatus d)"

definition findToken :: "db \<Rightarrow> string \<Rightarrow> string \<Rightarrow> TokenRegistry option" where
  "findToken d ch symb = find (\<lambda>r. tok_chain r = ch \<and> tok_tokenSymbol r = symb) (tokenRegistry d)"

text \<open>
  \<open>prisma.position.create\<close>. The table has the unique index
  \<open>positions_deployment_id_signal_id_key\<close> on \<open>(deployment_id, signal_id)\<close>: an insert
  that would repeat a pair is rejected and the call throws. Otherwise the row is stored
  under a generated identifier and returned.
\<close>

definition position_create :: "env \<Rightarrow> Position \<Rightarrow> db \<Rightarrow> string + Position \<times> db" where
  "position_create e p d =
     (if \<exists>q \<in> set (positions d).
           pos_deploymentId q = pos_deploymentId p \<and> pos_signalId q = pos_signalId p
      then Inl ''Unique constraint failed on the fields: (`deployment_id`,`signal_id`)''
      else
        (let row = p\<lparr>pos_id := gen_random_uuid e (positions d)\<rparr>
         in Inr (row, d\<lparr>positions := positions d @ [row]\<rparr>)))"

text \<open>\<open>prisma.signal.update\<close> and \<open>prisma.position.update\<close>: they throw when no row has the identifier.\<close>

definition signal_update :: "string \<Rightarrow> (Signal \<Rightarrow> Signal) \<Rightarrow> db \<Rightarrow> string + db" where
  "signal_update i f d =
     (if \<exists>s \<in> set (signals d). sig_id s = i
      then Inr (d\<lparr>signals := map (\<lambda>s. if sig_id s = i then f s else s) (signals d)\<rparr>)
      else Inl ''Record to update not found.'')"

definition position_update :: "string \<Rightarrow> (Position \<Rightarrow> Position) \<Rightarrow> db \<Rightarrow> string + db" where
  "position_update i f d =
     (if \<exists>p \<in> set (positions d). pos_id p = i
      then Inr (d\<lparr>positions := map (\<lambda>p. if pos_id p = i then f p else p) (positions d)\<rparr>)
      else Inl ''Record to update not found.'')"

subsection \<open>Small helpers of the source\<close>

text \<open>\<open>s.split('_MANUAL_')[0]\<close>: the part of \<open>s\<close> before the first occurrence of the separator.\<close>

fun beforeSep :: "string \<Rightarrow> string \<Rightarrow> string" where
  "beforeSep sep [] = []"
| "beforeSep sep (c # cs) =
     (if take (length sep) (c # cs) = sep then [] else c # beforeSep sep cs)"

definition actualTokenSymbol :: "string \<Rightarrow> string" where
  "actualTokenSymbol symb = beforeSep ''_MANUAL_'' symb"

definition chainName :: "nat \<Rightarrow> string" where
  "chainName chainId =
     (if chainId = 42161 then ''arbitrum'' else if chainId = 8453 then ''base'' else ''sepolia'')"

text \<open>
  The table \<open>USDC_ADDRESSES\<close>. For a chain that is not in it the lookup gives
  \<open>undefined\<close>, which is passed on as it is; it is written as the string \<open>undefined\<close>.
\<close>

definition USDC_ADDRESSES :: "nat \<Rightarrow> address" where
  "USDC_ADDRESSES chainId =
     (if chainId = 11155111 then ''0x1c7D4B196Cb0C7B01d743Fbc6116a902379C7238''
      else if chainId = 42161 then ''0xaf88d065e77c8cC2239327C5EDb3A432268e5831''
      else if chainId = 8453 then ''0x833589fCD6eDb6E08f4c7C32D4f71b54bdA02913''
      else ''undefined'')"

text \<open>\<open>parseFloat(formatUnits(amount, decimals))\<close>.\<close>

definition formatUnits :: "nat \<Rightarrow> nat \<Rightarrow> number" where
  "formatUnits amount decimals = real amount / 10 ^ decimals"

subsection \<open>Pre-trade validation\<close>

text \<open>
  \<open>preTradeValidation\<close>. The required collateral is \<open>usdcBalance * sizeModel.value / 100\<close>
  whatever the type of the size model; with \<open>value\<close> absent the product is \<open>NaN\<close>, which
  is not \<open>=== 0\<close>, so the third check passes. A throwing balance read is caught and
  reported as the reason.
\<close>

definition preTradeValidation :: "env \<Rightarrow> db \<Rightarrow> Signal \<Rightarrow> Deployment \<Rightarrow> PreTradeCheck" where
  "preTradeValidation e d signal deployment =
     (let symb = actualTokenSymbol (sig_tokenSymbol signal) in
      case findVenueStatus d (sig_venue signal) symb of
        None \<Rightarrow>
          \<lparr>pc_canExecute = False,
           pc_reason = Some (symb @ '' not available on '' @ venueName (sig_venue signal)),
           pc_usdcBalance = None, pc_tokenAvailable = Some False\<rparr>
      | Some venueRow \<Rightarrow>
          (case getUSDCBalance e (dep_safeWallet deployment)
                  (getChainIdForVenue e (sig_venue signal)) of
             Inl msg \<Rightarrow>
               \<lparr>pc_canExecute = False, pc_reason = Some msg, pc_usdcBalance = None,
                pc_tokenAvailable = None\<rparr>
           | Inr usdcBalance \<Rightarrow>
               if usdcBalance = 0 then
                 \<lparr>pc_canExecute = False, pc_reason = Some ''No USDC balance in Safe wallet'',
                  pc_usdcBalance = Some usdcBalance, pc_tokenAvailable = Some True\<rparr>
               else
                 (let requiredCollateral =
                        map_option (\<lambda>v. (usdcBalance * v) / 100)
                          (sm_value (sig_sizeModel signal))
                  in if requiredCollateral = Some 0 then
                       \<lparr>pc_canExecute = False, pc_reason = Some ''Position size too small'',
                        pc_usdcBalance = Some usdcBalance, pc_tokenAvailable = Some True\<rparr>
                     else if sig_venue signal = SPOT \<and>
                             findToken d (chainName (getChainIdForVenue e (sig_venue signal)))
                               symb = None
                     then
                       \<lparr>pc_canExecute = False,
                        pc_reason = Some (''Token '' @ symb @ '' not found in registry for '' @
                          chainName (getChainIdForVenue e (sig_venue signal))),
                        pc_usdcBalance = Some usdcBalance, pc_tokenAvailable = Some False\<rparr>
                     else
                       \<lparr>pc_canExecute = True, pc_reason = None,
                        pc_usdcBalance = Some usdcBalance, pc_tokenAvailable = Some True\<rparr>)))"

subsection \<open>Position sizing\<close>

text \<open>
  The sizing block of \<open>executeSpotTrade\<close>: a \<open>fixed-usdc\<close> model asks for its value, any
  other type for a percentage of the balance (5 when no value is given). A size below
  0.1 USDC is rejected, and so is a fixed amount above the balance.
\<close>

definition positionSize :: "SizeModel \<Rightarrow> number \<Rightarrow> number" where
  "positionSize sizeModel usdcBalance =
     (if sm_type sizeModel = ''fixed-usdc'' then num_or (sm_value sizeModel) 0
      else (usdcBalance * num_or (sm_value sizeModel) 5) / 100)"

definition sizeChecks :: "env \<Rightarrow> SizeModel \<Rightarrow> number \<Rightarrow> ExecutionResult + number" where
  "sizeChecks e sizeModel usdcBalance =
     (let psize = positionSize sizeModel usdcBalance in
      if psize < 1 / 10 then
        Inl \<lparr>success = False, txHash = None, positionId = None,
             error = Some (''Position size too small: '' @ toFixed e 2 psize @
                           '' USDC (min: 0.1 USDC)''),
             reason = Some ''Insufficient balance for minimum trade size'',
             executionSummary = None\<rparr>
      else if sm_type sizeModel = ''fixed-usdc'' \<and> psize > usdcBalance then
        Inl \<lparr>success = False, txHash = None, positionId = None,
             error = Some (''Insufficient balance: Need '' @ numToString e psize @
                           '' USDC, have '' @ toFixed e 2 usdcBalance @ '' USDC''),
             reason = Some ''Requested amount exceeds wallet balance'',
             executionSummary = None\<rparr>
      else Inr psize)"

subsection \<open>\<open>executeSpotTrade\<close>\<close>

text \<open>
  The body of \<open>executeSpotTrade\<close> is modelled in four consecutive parts: the reads and
  checks up to the router lookup (\<open>spotPrepare\<close>), the auto-setup (\<open>autoSetup\<close>), the
  submission of the trade, and the two writes to the store (\<open>spotPersist\<close>). The
  surrounding \<open>try/catch\<close> turns every thrown error into a failure result carrying its
  message. \<open>SpotPlan\<close> holds the local variables that the later parts use.
\<close>

record SpotPlan =
  plan_token :: TokenRegistry
  plan_symbol :: string
  plan_positionSize :: number
  plan_amountIn :: nat
  plan_usdcAddress :: address
  plan_minAmountOut :: nat
  plan_swapData :: string
  plan_executor :: address
  plan_routerAddress :: address

text \<open>
  The end of the first part: the module service is constructed (which throws on a
  private key that is no key) and the router address is looked up; the two complete
  the local variables.
\<close>

definition spotService :: "env \<Rightarrow> nat \<Rightarrow> string \<Rightarrow> SpotPlan \<Rightarrow> ExecutionResult + SpotPlan" where
  "spotService e chainId key plan =
     (case executorOf e key of
        Inl msg \<Rightarrow> Inl (failure msg)
      | Inr ex \<Rightarrow>
          (case getRouterAddress e chainId of
             None \<Rightarrow>
               Inl (failure (''Router not configured for chain '' @ numToString e (real chainId)))
           | Some router \<Rightarrow>
               if router = [] then
                 Inl (failure (''Router not configured for chain '' @
                        numToString e (real chainId)))
               else Inr (plan\<lparr>plan_executor := ex, plan_routerAddress := router\<rparr>)))"

definition spotPrepare :: "env \<Rightarrow> db \<Rightarrow> Signal \<Rightarrow> Deployment \<Rightarrow> ExecutionResult + SpotPlan" where
  "spotPrepare e d signal deployment =
     (let chainId = getChainIdForVenue e (sig_venue signal);
          safe = dep_safeWallet deployment
      in
      case getExecutionSummary e signal safe of
        Inl msg \<Rightarrow> Inl (failure msg)
      | Inr summary \<Rightarrow>
          if \<not> es_canExecute summary then
            Inl \<lparr>success = False, txHash = None, positionId = None,
                 error = Some ''Cannot execute SPOT trade'', reason = es_reason summary,
                 executionSummary = Some (SummaryOf summary)\<rparr>
          else
            (let symb = actualTokenSymbol (sig_tokenSymbol signal) in
             case findToken d (chainName chainId) symb of
               None \<Rightarrow> Inl (failure (''Token '' @ symb @ '' not found in registry''))
             | Some tokenRow \<Rightarrow>
                 (case sizeChecks e (sig_sizeModel signal) (num_or (es_usdcBalance summary) 0) of
                    Inl r \<Rightarrow> Inl r
                  | Inr psize \<Rightarrow>
                      (let amount = parseUnits6 e psize;
                           usdcAddress = USDC_ADDRESSES chainId
                       in
                       case getQuote e usdcAddress (tok_tokenAddress tokenRow) amount of
                         Inl msg \<Rightarrow> Inl (failure msg)
                       | Inr quoteOut \<Rightarrow>
                           (let minOut = calculateMinAmountOut e quoteOut 5000 in
                            case buildApprovalTx e usdcAddress amount of
                              Inl msg \<Rightarrow> Inl (failure msg)
                            | Inr approvalData \<Rightarrow>
                                (case buildSwapTx e usdcAddress (tok_tokenAddress tokenRow)
                                        amount minOut safe of
                                   Inl msg \<Rightarrow> Inl (failure msg)
                                 | Inr swapTxData \<Rightarrow>
                                     if \<not> truthy (EXECUTOR_PRIVATE_KEY e) then
                                       Inl (failure ''EXECUTOR_PRIVATE_KEY not configured'')
                                     else
                                       (case EXECUTOR_PRIVATE_KEY e of
                                          None \<Rightarrow>
                                            Inl (failure ''EXECUTOR_PRIVATE_KEY not configured'')
                                        | Some key \<Rightarrow>
                                            spotService e chainId key
                                              \<lparr>plan_token = tokenRow, plan_symbol = symb,
                                               plan_positionSize = psize, plan_amountIn = amount,
                                               plan_usdcAddress = usdcAddress,
                                               plan_minAmountOut = minOut,
                                               plan_swapData = swapTxData, plan_executor = [],
                                               plan_routerAddress = []\<rparr>)))))))"

text \<open>
  Auto-setup: capital initialisation when the stats say it is missing (a throwing stats
  read is caught and setup goes on), token whitelisting when the check answers false, and
  the USDC approval. The results of the three transactions are only logged.
\<close>

definition autoSetup :: "env \<Rightarrow> Deployment \<Rightarrow> SpotPlan \<Rightarrow> gw_state \<Rightarrow> gw_state" where
  "autoSetup e deployment plan st =
     (let ch = chainOf e;
          safe = dep_safeWallet deployment;
          ex = plan_executor plan;
          token = tok_tokenAddress (plan_token plan);
          st1 = (case getSafeStats ch safe st of
                   Inl msg \<Rightarrow> st
                 | Inr initialized \<Rightarrow>
                     if \<not> initialized then snd (initializeCapital ch safe st) else st);
          st2 = (if \<not> checkTokenWhitelist ch safe token st1
                 then snd (setTokenWhitelist ch ex safe token True st1) else st1)
      in snd (approveTokenForDex ch ex safe (plan_usdcAddress plan) (plan_routerAddress plan) st2))"

text \<open>
  The writes after a successful trade: first the proof-of-intent fields of the signal,
  then the position row, whose quantity and entry price come from the amount the trade
  returned.
\<close>

definition newPosition ::
  "Signal \<Rightarrow> Deployment \<Rightarrow> SpotPlan \<Rightarrow> TradeResult \<Rightarrow> Position" where
  "newPosition signal deployment plan result =
     (let actualAmountOut = (case tr_amountOut result of None \<Rightarrow> 0 | Some a \<Rightarrow> formatUnits a 18);
          actualEntryPrice = (if actualAmountOut > 0
                              then plan_positionSize plan / actualAmountOut else 0)
      in \<lparr>pos_id = [], pos_deploymentId = dep_id deployment, pos_signalId = sig_id signal,
           pos_venue = sig_venue signal, pos_tokenSymbol = plan_symbol plan,
           pos_side = sig_side signal, pos_qty = actualAmountOut,
           pos_entryPrice = actualEntryPrice, pos_entryTxHash = tr_txHash result,
           pos_stopLoss = None, pos_takeProfit = None,
           pos_trailingParams =
             Some \<lparr>enabled = True, trailingPercent = Some 1, highestPrice = None,
                   lowestPrice = None\<rparr>,
           pos_closedAt = None, pos_exitPrice = None, pos_exitTxHash = None, pos_pnl = None\<rparr>)"

definition intentUpdate :: "Agent \<Rightarrow> string \<Rightarrow> TradeResult \<Rightarrow> Signal \<Rightarrow> Signal" where
  "intentUpdate agent intent result s =
     s\<lparr>sig_signalHash := Some intent, sig_creatorAddress := Some (ag_creatorWallet agent),
       sig_proofOfIntentTxHash := tr_txHash result\<rparr>"

definition createdResult :: "TradeResult \<Rightarrow> Position \<Rightarrow> ExecutionResult" where
  "createdResult result row =
     \<lparr>success = True, txHash = tr_txHash result, positionId = Some (pos_id row),
      error = None, reason = None, executionSummary = None\<rparr>"

definition spotPersist ::
  "env \<Rightarrow> Signal \<Rightarrow> Agent \<Rightarrow> Deployment \<Rightarrow> SpotPlan \<Rightarrow> string \<Rightarrow> TradeResult \<Rightarrow> db \<Rightarrow>
   ExecutionResult \<times> db" where
  "spotPersist e signal agent deployment plan intent result d =
     (case signal_update (sig_id signal) (intentUpdate agent intent result) d of
        Inl msg \<Rightarrow> (failure msg, d)
      | Inr d1 \<Rightarrow>
          (case position_create e (newPosition signal deployment plan result) d1 of
             Inl msg \<Rightarrow> (failure msg, d1)
           | Inr (row, d2) \<Rightarrow> (createdResult result row, d2)))"

text \<open>The failure result for a trade that the gateway reports as failed.\<close>

definition submissionFailure :: "TradeResult \<Rightarrow> ExecutionResult" where
  "submissionFailure result =
     failure (case tr_error result of
                None \<Rightarrow> ''Transaction submission failed''
              | Some m \<Rightarrow> msg_or m ''Transaction submission failed'')"

definition spotTradeParams :: "Agent \<Rightarrow> Deployment \<Rightarrow> SpotPlan \<Rightarrow> string \<Rightarrow> TradeParams" where
  "spotTradeParams agent deployment plan intent =
     \<lparr>safeAddress = dep_safeWallet deployment, fromToken = plan_usdcAddress plan,
      toToken = tok_tokenAddress (plan_token plan), amountIn = plan_amountIn plan,
      dexRouter = plan_routerAddress plan, swapData = plan_swapData plan,
      minAmountOut = plan_minAmountOut plan,
      profitReceiver = ag_profitReceiverAddress agent,
      signalHash = Some intent, creatorAddress = Some (ag_creatorWallet agent)\<rparr>"

definition executeSpotTrade ::
  "env \<Rightarrow> Signal \<Rightarrow> Agent \<Rightarrow> Deployment \<Rightarrow> db \<Rightarrow> gw_state \<Rightarrow>
   ExecutionResult \<times> db \<times> gw_state" where
  "executeSpotTrade e signal agent deployment d st =
     (case spotPrepare e d signal deployment of
        Inl r \<Rightarrow> (r, d, st)
      | Inr plan \<Rightarrow>
          (let st1 = autoSetup e deployment plan st in
           case intentHash e signal agent (plan_amountIn plan) of
             Inl msg \<Rightarrow> (failure msg, d, st1)
           | Inr intent \<Rightarrow>
               (case executeTrade (chainOf e) (plan_executor plan)
                       (spotTradeParams agent deployment plan intent) st1 of
                  (result, st2) \<Rightarrow>
                    if \<not> tr_success result then
                      (submissionFailure result, d, st2)
                    else
                      (case spotPersist e signal agent deployment plan intent result d of
                         (r, d') \<Rightarrow> (r, d', st2)))))"

subsection \<open>Routing and the entry points\<close>

definition routeToVenue ::
  "env \<Rightarrow> Signal \<Rightarrow> Agent \<Rightarrow> Deployment \<Rightarrow> db \<Rightarrow> gw_state \<Rightarrow>
   ExecutionResult \<times> db \<times> gw_state" where
  "routeToVenue e signal agent deployment d st =
     (case sig_venue signal of
        SPOT \<Rightarrow> executeSpotTrade e signal agent deployment d st
      | GMX \<Rightarrow>
          (failure ''GMX perpetuals coming soon on Base! Stay tuned for updates.'', d, st)
      | HYPERLIQUID \<Rightarrow>
          (failure ''Hyperliquid perpetuals coming soon on Base! Stay tuned for updates.'', d, st))"

definition executeSignalInternal ::
  "env \<Rightarrow> Signal \<Rightarrow> Agent \<Rightarrow> Deployment \<Rightarrow> db \<Rightarrow> gw_state \<Rightarrow>
   ExecutionResult \<times> db \<times> gw_state" where
  "executeSignalInternal e signal agent deployment d st =
     (case validateSafe e (dep_safeWallet deployment) (getChainIdForVenue e (sig_venue signal)) of
        Inl msg \<Rightarrow> (failure msg, d, st)
      | Inr (valid, verr) \<Rightarrow>
          if \<not> valid then (failure (''Safe wallet validation failed: '' @ verr), d, st)
          else
            (let preCheck = preTradeValidation e d signal deployment in
             if \<not> pc_canExecute preCheck then
               (\<lparr>success = False, txHash = None, positionId = None,
                 error = Some ''Pre-trade validation failed'', reason = pc_reason preCheck,
                 executionSummary = Some (PreCheckOf preCheck)\<rparr>, d, st)
             else routeToVenue e signal agent deployment d st))"

definition executeSignalForDeployment ::
  "env \<Rightarrow> string \<Rightarrow> string \<Rightarrow> db \<Rightarrow> gw_state \<Rightarrow> ExecutionResult \<times> db \<times> gw_state" where
  "executeSignalForDeployment e signalId deploymentId d st =
     (case findSignal d signalId of
        None \<Rightarrow> (failure ''Signal not found'', d, st)
      | Some signal \<Rightarrow>
          (case findDeployment d deploymentId of
             None \<Rightarrow> (failure ''Deployment not found'', d, st)
           | Some deployment \<Rightarrow>
               executeSignalInternal e signal (agents d (sig_agentId signal)) deployment d st))"

subsection \<open>The validator as the specification words it\<close>




section \<open>Trade execution coordinator: closing\<close>

text \<open>
  \<open>closeSpotPosition\<close>. The amount sold is the token balance the Safe holds on-chain, not
  the stored quantity. A failed approval is fatal only when the allowance check that
  follows answers false. A missing price is \<open>null\<close>, which the subtraction reads as 0.
  After a successful close transaction the position row is updated and, for a positive
  PnL, a billing event is recorded; a failure of that last write is caught and ignored.
\<close>

definition closedFields ::
  "env \<Rightarrow> number option \<Rightarrow> TradeResult \<Rightarrow> number \<Rightarrow> number \<Rightarrow> Position \<Rightarrow> Position" where
  "closedFields e exitPrice result actualQty pnl p =
     p\<lparr>pos_closedAt := Some (now e), pos_exitPrice := exitPrice,
       pos_exitTxHash := tr_txHash result, pos_qty := actualQty, pos_pnl := Some pnl\<rparr>"

text \<open>
  The second half of \<open>closeSpotPosition\<close>, from the approval on; \<open>actualBalance\<close>,
  \<open>tokenRow\<close>, \<open>router\<close> and the executor address \<open>ex\<close> of the module service come from
  the first half.
\<close>

definition closeSpotSubmit ::
  "env \<Rightarrow> Position \<Rightarrow> Deployment \<Rightarrow> Agent \<Rightarrow> nat \<Rightarrow> TokenRegistry \<Rightarrow> nat \<Rightarrow> address \<Rightarrow>
   address \<Rightarrow> db \<Rightarrow> gw_state \<Rightarrow> ExecutionResult \<times> db \<times> gw_state" where
  "closeSpotSubmit e position deployment agent chainId tokenRow actualBalance router ex d st =
     (let ch = chainOf e;
          safe = dep_safeWallet deployment;
          usdcAddress = USDC_ADDRESSES chainId;
          token = tok_tokenAddress tokenRow;
          tokenDecimals = (if tok_decimals tokenRow = 0 then 18 else tok_decimals tokenRow);
          actualQty = formatUnits actualBalance tokenDecimals
      in
      case approveTokenForDex ch ex safe token router st of
        (approvalResult, st1) \<Rightarrow>
          if \<not> tr_success approvalResult \<and> \<not> checkTokenApproval ch safe token router st1
          then
            (failure (''Token approval failed: '' @
               (case tr_error approvalResult of None \<Rightarrow> ''undefined'' | Some m \<Rightarrow> m) @
               ''. Please approve '' @ pos_tokenSymbol position @ '' manually.''), d, st1)
          else
            (let totalEntryValueUSD = pos_entryPrice position * actualQty;
                 entryValueUSDC = parseUnits6 e totalEntryValueUSD;
                 exitPrice = getTokenPriceUSD e (pos_tokenSymbol position);
                 exitNum = (case exitPrice of None \<Rightarrow> 0 | Some x \<Rightarrow> x);
                 entryPrice = pos_entryPrice position;
                 pnl = (if pos_side position = ''LONG''
                        then (exitNum - entryPrice) * actualQty
                        else (entryPrice - exitNum) * actualQty)
             in
             case closePositionOnChain ch ex
                    \<lparr>cp_safeAddress = safe, cp_tokenIn = token, cp_tokenOut = usdcAddress,
                     cp_amountIn = actualBalance, cp_minAmountOut = 0,
                     cp_profitReceiver = ag_profitReceiverAddress agent,
                     cp_entryValueUSDC = entryValueUSDC\<rparr> st1 of
               (result, st2) \<Rightarrow>
                 if \<not> tr_success result then
                   (failure (case tr_error result of
                               None \<Rightarrow> ''Close transaction failed''
                             | Some m \<Rightarrow> msg_or m ''Close transaction failed''), d, st2)
                 else
                   (case position_update (pos_id position)
                           (closedFields e exitPrice result actualQty pnl) d of
                      Inl msg \<Rightarrow> (failure msg, d, st2)
                    | Inr d1 \<Rightarrow>
                        (let d2 =
                           (if pnl > 0 \<and> truthy (tr_txHash result) then
                              d1\<lparr>billingEvents := billingEvents d1 @
                                [\<lparr>be_positionId = pos_id position,
                                  be_deploymentId = pos_deploymentId position,
                                  be_kind = ''PROFIT_SHARE'',
                                  be_amount = (pnl * 2000) / 10000,
                                  be_txHash = tr_txHash result\<rparr>]\<rparr>
                            else d1)
                         in (\<lparr>success = True, txHash = tr_txHash result,
                              positionId = Some (pos_id position), error = None, reason = None,
                              executionSummary = None\<rparr>, d2, st2)))))"

definition closeSpotPosition ::
  "env \<Rightarrow> Position \<Rightarrow> Deployment \<Rightarrow> Agent \<Rightarrow> nat \<Rightarrow> db \<Rightarrow> gw_state \<Rightarrow>
   ExecutionResult \<times> db \<times> gw_state" where
  "closeSpotPosition e position deployment agent chainId d st =
     (let ch = chainOf e;
          safe = dep_safeWallet deployment;
          chainStr = (if chainId = 42161 then ''arbitrum'' else ''base'')
      in
      case findToken d chainStr (pos_tokenSymbol position) of
        None \<Rightarrow> (failure ''Token not found in registry'', d, st)
      | Some tokenRow \<Rightarrow>
          (case balanceOf ch (txlog st) (tok_tokenAddress tokenRow) safe of
             Inl msg \<Rightarrow> (failure msg, d, st)
           | Inr actualBalance \<Rightarrow>
               if actualBalance = 0 then
                 (failure (''No '' @ pos_tokenSymbol position @ '' balance in Safe to close''), d, st)
               else
                 (case buildCloseSwapTx e (tok_tokenAddress tokenRow) (USDC_ADDRESSES chainId)
                         actualBalance safe of
                    Inl msg \<Rightarrow> (failure msg, d, st)
                  | Inr swapTxData \<Rightarrow>
                      (case EXECUTOR_PRIVATE_KEY e of
                         None \<Rightarrow> (failure ''EXECUTOR_PRIVATE_KEY not configured'', d, st)
                       | Some key \<Rightarrow>
                           if key = [] then
                             (failure ''EXECUTOR_PRIVATE_KEY not configured'', d, st)
                           else
                             (case executorOf e key of
                                Inl msg \<Rightarrow> (failure msg, d, st)
                              | Inr ex \<Rightarrow>
                                  (case getRouterAddress e chainId of
                                     None \<Rightarrow>
                                       (failure (''Router not configured for chain '' @
                                          numToString e (real chainId)), d, st)
                                   | Some router \<Rightarrow>
                                       if router = [] then
                                         (failure (''Router not configured for chain '' @
                                            numToString e (real chainId)), d, st)
                                       else
                                         closeSpotSubmit e position deployment agent chainId
                                           tokenRow actualBalance router ex d st))))))"

text \<open>
  \<open>closePosition\<close>. A position that is not found, or whose \<open>closedAt\<close> is set, is answered
  at once with a failure result. The deployment is loaded with the position; the foreign
  key makes it exist, and were it \<open>null\<close> the property access would throw into the
  \<open>catch\<close>.
\<close>

definition closePosition ::
  "env \<Rightarrow> string \<Rightarrow> db \<Rightarrow> gw_state \<Rightarrow> ExecutionResult \<times> db \<times> gw_state" where
  "closePosition e posId d st =
     (case findPosition d posId of
        None \<Rightarrow> (failure ''Position not found'', d, st)
      | Some position \<Rightarrow>
          (case pos_closedAt position of
             Some t \<Rightarrow> (failure (''Position already closed at '' @ toISOString e t), d, st)
           | None \<Rightarrow>
               (case findDeployment d (pos_deploymentId position) of
                  None \<Rightarrow> (failure ''Cannot read properties of null'', d, st)
                | Some deployment \<Rightarrow>
                    if pos_venue position = SPOT then
                      closeSpotPosition e position deployment (agents d (dep_agentId deployment))
                        (getChainIdForVenue e (pos_venue position)) d st
                    else
                      (failure (''Position closing not implemented for '' @
                         venueName (pos_venue position)), d, st))))"

section \<open>The execute-trade endpoint (\<open>handler\<close>) and the module-status sync\<close>






text \<open>
  \<open>syncAllDeployments\<close>: the one place where the stored \<open>moduleEnabled\<close> flag is compared
  with the Safe's answer and rewritten when they differ. A deployment without Safe
  address, and one whose read throws, is left as it is.
\<close>

definition syncDeployment :: "chain \<Rightarrow> tx_request list \<Rightarrow> Deployment \<Rightarrow> Deployment" where
  "syncDeployment ch txs x =
     (if dep_safeWallet x = [] then x
      else
        (case isModuleEnabled ch txs (dep_safeWallet x) of
           Inl msg \<Rightarrow> x
         | Inr isEnabledOnChain \<Rightarrow>
             if dep_moduleEnabled x \<noteq> isEnabledOnChain
             then x\<lparr>dep_moduleEnabled := isEnabledOnChain\<rparr> else x))"

definition syncAllDeployments :: "chain \<Rightarrow> tx_request list \<Rightarrow> db \<Rightarrow> db" where
  "syncAllDeployments ch txs d = d\<lparr>deployments := map (syncDeployment ch txs) (deployments d)\<rparr>"

section \<open>Concurrent opens for one deployment and signal\<close>

text \<open>
  Several invocations of the open path for the same deployment and signal run as
  asynchronous tasks; between two \<open>await\<close>s of one task the others may run. The steps of a
  task that touch the \<open>positions\<close> and \<open>signals\<close> tables are, in order: the endpoint's
  lookup of an existing position (a task started straight at the coordinator behaves as
  one that found none), after the trade the update of the signal, and the insert of
  the position. Everything between the lookup and the update reads other tables or
  talks to the chain; of that only the result of the trade matters here, so it is a
  parameter: \<open>results i\<close> is what \<open>executeTrade\<close> returned to task \<open>i\<close>, \<open>plans i\<close> and
  \<open>intents i\<close> are that task's local variables.

  A task is \<open>Ready\<close> before the lookup, \<open>Trading\<close> after a lookup that found nothing,
  \<open>Creating\<close> after the signal update, and \<open>Done\<close> with the way it ended: passed over by
  the endpoint, or returned from the coordinator with the result of the trade failure,
  of the failed signal update, of the rejected insert, or of the created position.
\<close>

datatype outcome =
    Skipped
  | TradeFailed ExecutionResult
  | SignalUpdateFailed ExecutionResult
  | Duplicate ExecutionResult
  | Created ExecutionResult

datatype task = Ready | Trading | Creating | Done outcome

text \<open>One step of task \<open>i\<close>. A task that is done, and an index without task, changes nothing.\<close>

definition raceStep ::
  "env \<Rightarrow> Signal \<Rightarrow> Agent \<Rightarrow> Deployment \<Rightarrow> (nat \<Rightarrow> SpotPlan) \<Rightarrow> (nat \<Rightarrow> string) \<Rightarrow>
   (nat \<Rightarrow> TradeResult) \<Rightarrow> nat \<Rightarrow> db \<times> task list \<Rightarrow> db \<times> task list" where
  "raceStep e signal agent deployment plans intents results i c =
     (case c of (d, ts) \<Rightarrow>
        if i \<ge> length ts then (d, ts)
        else
          (case ts ! i of
             Ready \<Rightarrow>
               (case findPositionFor d (dep_id deployment) (sig_id signal) of
                  Some existing \<Rightarrow> (d, ts[i := Done Skipped])
                | None \<Rightarrow> (d, ts[i := Trading]))
           | Trading \<Rightarrow>
               if \<not> tr_success (results i) then
                 (d, ts[i := Done (TradeFailed (submissionFailure (results i)))])
               else
                 (case signal_update (sig_id signal)
                         (intentUpdate agent (intents i) (results i)) d of
                    Inl msg \<Rightarrow> (d, ts[i := Done (SignalUpdateFailed (failure msg))])
                  | Inr d1 \<Rightarrow> (d1, ts[i := Creating]))
           | Creating \<Rightarrow>
               (case position_create e
                       (newPosition signal deployment (plans i) (results i)) d of
                  Inl msg \<Rightarrow> (d, ts[i := Done (Duplicate (failure msg))])
                | Inr (row, d2) \<Rightarrow> (d2, ts[i := Done (Created (createdResult (results i) row))]))
           | Done r \<Rightarrow> (d, ts)))"

text \<open>A schedule names the task that takes the next step, again and again.\<close>

fun race ::
  "env \<Rightarrow> Signal \<Rightarrow> Agent \<Rightarrow> Deployment \<Rightarrow> (nat \<Rightarrow> SpotPlan) \<Rightarrow> (nat \<Rightarrow> string) \<Rightarrow>
   (nat \<Rightarrow> TradeResult) \<Rightarrow> nat list \<Rightarrow> db \<times> task list \<Rightarrow> db \<times> task list" where
  "race e signal agent deployment plans intents results [] c = c"
| "race e signal agent deployment plans intents results (i # sched) c =
     race e signal agent deployment plans intents results sched
       (raceStep e signal agent deployment plans intents results i c)"












text \<open>The result a task returned to its caller, if it returned one.\<close>

fun taskResult :: "task \<Rightarrow> ExecutionResult option" where
  "taskResult (Done (TradeFailed r)) = Some r"
| "taskResult (Done (SignalUpdateFailed r)) = Some r"
| "taskResult (Done (Duplicate r)) = Some r"
| "taskResult (Done (Created r)) = Some r"
| "taskResult t = None"

section \<open>Position monitor (\<open>monitorPositions\<close>)\<close>

subsection \<open>The evaluation of one open position in one cycle\<close>

text \<open>
  What the loop body decides for one position: whether to close, the reason, and the
  \<open>trailingParams\<close> document it wrote to the store, if it wrote one.
\<close>

record Decision =
  shouldClose :: bool
  closeReason :: string
  trailingUpdate :: "TrailingParams option"

definition isLong :: "string \<Rightarrow> bool" where
  "isLong side = (side = ''BUY'' \<or> side = ''LONG'')"

text \<open>
  The trailing-stop block. With \<open>trailingParams\<close> absent or not enabled nothing happens.
  For a long position the high-water mark starts from the entry price, is raised to the
  current price, and is written back when it rose; the stop is active once the mark has
  reached \<open>entryPrice * 1.03\<close>, and then triggers when the current price is at or below
  the mark less \<open>trailingPercent\<close> percent. The short side mirrors it.
\<close>

definition trailingStopCheck ::
  "string \<Rightarrow> number \<Rightarrow> number \<Rightarrow> TrailingParams option \<Rightarrow> Decision" where
  "trailingStopCheck side entryPrice currentPrice tpo =
     (case tpo of
        None \<Rightarrow> \<lparr>shouldClose = False, closeReason = [], trailingUpdate = None\<rparr>
      | Some tp \<Rightarrow>
          if \<not> enabled tp then \<lparr>shouldClose = False, closeReason = [], trailingUpdate = None\<rparr>
          else
            (let tPercent = num_or (trailingPercent tp) 1 in
             if isLong side then
               (let activationThreshold = entryPrice * (103 / 100);
                    highest = num_or (highestPrice tp) entryPrice;
                    newHighest = max highest currentPrice;
                    upd = (if newHighest > highest
                           then Some (tp\<lparr>highestPrice := Some newHighest\<rparr>) else None)
                in if newHighest \<ge> activationThreshold then
                     (let trailingStopPrice = newHighest * (1 - tPercent / 100)
                      in if currentPrice \<le> trailingStopPrice
                         then \<lparr>shouldClose = True, closeReason = ''TRAILING_STOP'',
                               trailingUpdate = upd\<rparr>
                         else \<lparr>shouldClose = False, closeReason = [], trailingUpdate = upd\<rparr>)
                   else \<lparr>shouldClose = False, closeReason = [], trailingUpdate = upd\<rparr>)
             else
               (let activationThreshold = entryPrice * (97 / 100);
                    lowest = num_or (lowestPrice tp) entryPrice;
                    newLowest = min lowest currentPrice;
                    upd = (if newLowest < lowest
                           then Some (tp\<lparr>lowestPrice := Some newLowest\<rparr>) else None)
                in if newLowest \<le> activationThreshold then
                     (let trailingStopPrice = newLowest * (1 + tPercent / 100)
                      in if currentPrice \<ge> trailingStopPrice
                         then \<lparr>shouldClose = True, closeReason = ''TRAILING_STOP'',
                               trailingUpdate = upd\<rparr>
                         else \<lparr>shouldClose = False, closeReason = [], trailingUpdate = upd\<rparr>)
                   else \<lparr>shouldClose = False, closeReason = [], trailingUpdate = upd\<rparr>)))"

text \<open>
  The take-profit price: the position's own when it is set and not zero, else the one of
  the signal's risk model when that is set and not zero.
\<close>

definition effectiveTakeProfit :: "number option \<Rightarrow> RiskModel \<Rightarrow> number option" where
  "effectiveTakeProfit posTakeProfit riskModel =
     (if \<not> numTruthy posTakeProfit \<and> numTruthy (rm_takeProfit riskModel)
      then rm_takeProfit riskModel else posTakeProfit)"

text \<open>
  The take-profit block, entered only when the trailing stop has not set \<open>shouldClose\<close>
  and a take-profit price is set. The fixed stop-loss block between the two is commented
  out in the source and has no counterpart here.
\<close>

definition takeProfitCheck :: "string \<Rightarrow> number \<Rightarrow> number option \<Rightarrow> Decision \<Rightarrow> Decision" where
  "takeProfitCheck side currentPrice takeProfit d =
     (if \<not> shouldClose d \<and> numTruthy takeProfit then
        (case takeProfit of
           None \<Rightarrow> d
         | Some tpPrice \<Rightarrow>
             if isLong side then
               (if currentPrice \<ge> tpPrice
                then d\<lparr>shouldClose := True, closeReason := ''TAKE_PROFIT''\<rparr> else d)
             else
               (if currentPrice \<le> tpPrice
                then d\<lparr>shouldClose := True, closeReason := ''TAKE_PROFIT''\<rparr> else d))
      else d)"

text \<open>
  The body of the loop up to the decision. \<open>price\<close> is the result of the price lookup:
  \<open>None\<close> when it is unavailable. A position without entry price, and a cycle without
  price (or with price zero), is skipped: the result is \<open>None\<close>.
\<close>

definition evaluatePosition :: "Position \<Rightarrow> RiskModel \<Rightarrow> number option \<Rightarrow> Decision option" where
  "evaluatePosition position riskModel price =
     (let side = pos_side position;
          entryPrice = pos_entryPrice position
      in if entryPrice = 0 then None
         else if \<not> numTruthy price then None
         else
           (case price of
              None \<Rightarrow> None
            | Some currentPrice \<Rightarrow>
                (let takeProfit = effectiveTakeProfit (pos_takeProfit position) riskModel;
                     d = trailingStopCheck side entryPrice currentPrice
                           (pos_trailingParams position)
                 in Some (takeProfitCheck side currentPrice takeProfit d))))"

subsection \<open>A price path\<close>




text \<open>
  The position of the trailing-stop example: a long position entered at 100, as the
  coordinator creates it (trailing stop enabled at 1 percent, no high-water mark yet),
  without take-profit; and the same position with a take-profit price of 120.
\<close>

definition newTrailing :: TrailingParams where
  "newTrailing = \<lparr>enabled = True, trailingPercent = Some 1, highestPrice = None, lowestPrice = None\<rparr>"

definition long100 :: Position where
  "long100 =
     \<lparr>pos_id = ''p1'', pos_deploymentId = ''d1'', pos_signalId = ''s1'', pos_venue = SPOT,
      pos_tokenSymbol = ''WETH'', pos_side = ''LONG'', pos_qty = 1 / 2, pos_entryPrice = 100,
      pos_entryTxHash = Some ''0xabc'', pos_stopLoss = None, pos_takeProfit = None,
      pos_trailingParams = Some newTrailing, pos_closedAt = None, pos_exitPrice = None,
      pos_exitTxHash = None, pos_pnl = None\<rparr>"



subsection \<open>One monitor cycle\<close>

text \<open>
  The price lookup: the GMX reader for GMX positions, the spot oracle otherwise. Both
  give \<open>null\<close> when no price can be had.
\<close>

definition currentPriceOf :: "env \<Rightarrow> Position \<Rightarrow> number option" where
  "currentPriceOf e position =
     (if pos_venue position = GMX then getMarketPrice e (pos_tokenSymbol position)
      else getTokenPriceUSD e (pos_tokenSymbol position))"

text \<open>
  The loop body for one position of the snapshot: evaluate, write the new high-water
  mark when there is one, and call the coordinator's \<open>closePosition\<close> when the decision
  says so. The result counts the close that succeeded. An error thrown in the body (a
  missing signal row, a failing update) ends the body for this position.
\<close>

definition monitorPosition :: "env \<Rightarrow> Position \<Rightarrow> db \<Rightarrow> gw_state \<Rightarrow> nat \<times> db \<times> gw_state" where
  "monitorPosition e position d st =
     (case findSignal d (pos_signalId position) of
        None \<Rightarrow> (0, d, st)
      | Some signal \<Rightarrow>
          (case evaluatePosition position (sig_riskModel signal) (currentPriceOf e position) of
             None \<Rightarrow> (0, d, st)
           | Some dec \<Rightarrow>
               (case (case trailingUpdate dec of
                        None \<Rightarrow> Inr d
                      | Some tp \<Rightarrow>
                          position_update (pos_id position)
                            (\<lambda>p. p\<lparr>pos_trailingParams := Some tp\<rparr>) d) of
                  Inl msg \<Rightarrow> (0, d, st)
                | Inr d1 \<Rightarrow>
                    if shouldClose dec then
                      (case closePosition e (pos_id position) d1 st of
                         (r, d2, st2) \<Rightarrow> (if success r then 1 else 0, d2, st2))
                    else (0, d1, st))))"

fun monitorLoop :: "env \<Rightarrow> Position list \<Rightarrow> nat \<Rightarrow> db \<Rightarrow> gw_state \<Rightarrow> nat \<times> db \<times> gw_state" where
  "monitorLoop e [] closedCount d st = (closedCount, d, st)"
| "monitorLoop e (position # rest) closedCount d st =
     (case monitorPosition e position d st of
        (c, d', st') \<Rightarrow> monitorLoop e rest (closedCount + c) d' st')"

definition monitorPositions :: "env \<Rightarrow> db \<Rightarrow> gw_state \<Rightarrow> nat \<times> db \<times> gw_state" where
  "monitorPositions e d st =
     monitorLoop e (filter (\<lambda>p. pos_closedAt p = None) (positions d)) 0 d st"

text \<open>The module calls that close a position, and those that open one.\<close>

fun is_close :: "module_call \<Rightarrow> bool" where
  "is_close (ClosePosition s i out a m fee p v) = True"
| "is_close c = False"

fun is_open :: "module_call \<Rightarrow> bool" where
  "is_open (ExecuteTrade s i out a m fee p) = True"
| "is_open (ExecuteTradeWithIntent s h c i out a m fee) = True"
| "is_open c = False"

subsection \<open>Reading the transaction log\<close>

text \<open>The Safe a module call is made for: the first argument of every call.\<close>

fun call_safe :: "module_call \<Rightarrow> address" where
  "call_safe (ExecuteTrade s i out a m fee p) = s"
| "call_safe (ExecuteTradeWithIntent s h c i out a m fee) = s"
| "call_safe (ClosePosition s i out a m fee p v) = s"
| "call_safe (ExecuteFromModule s t v dat) = s"
| "call_safe (SetTokenWhitelist s t en) = s"
| "call_safe (InitializeCapital s) = s"

text \<open>
  \<open>logAdds st st' P\<close>: the log of \<open>st'\<close> is the log of \<open>st\<close> followed by transactions
  whose calls all satisfy \<open>P\<close>.
\<close>

definition logAdds :: "gw_state \<Rightarrow> gw_state \<Rightarrow> (module_call \<Rightarrow> bool) \<Rightarrow> bool" where
  "logAdds st st' P = (\<exists>new. txlog st' = txlog st @ new \<and> list_all (\<lambda>tx. P (call tx)) new)"

text \<open>
  \<open>accepted ch st st'\<close>: among the transactions submitted between \<open>st\<close> and \<open>st'\<close> there is
  an opening swap for which the chain returned a receipt.
\<close>

definition accepted :: "chain \<Rightarrow> gw_state \<Rightarrow> gw_state \<Rightarrow> bool" where
  "accepted ch st st' =
     list_ex (\<lambda>i. is_open (call (txlog st' ! i)) \<and>
                  (case submit ch (take i (txlog st')) (txlog st' ! i) of
                     Inl m \<Rightarrow> False | Inr rc \<Rightarrow> True))
       [length (txlog st) ..< length (txlog st')]"


section \<open>A concrete world\<close>

text \<open>
  One agent, one signal for WETH on the spot venue sized at 5 percent of the balance, one
  active deployment with a balance of 1000 USDC, and collaborators that all answer. The
  theorems below are evaluated on it.
\<close>

definition demoAgent :: Agent where
  "demoAgent = \<lparr>ag_id = ''a1'', ag_creatorWallet = ''0xCreator'',
                ag_profitReceiverAddress = ''0xCreator''\<rparr>"

definition demoSignal :: Signal where
  "demoSignal =
     \<lparr>sig_id = ''s1'', sig_agentId = ''a1'', sig_tokenSymbol = ''WETH'', sig_venue = SPOT,
      sig_side = ''LONG'',
      sig_sizeModel = \<lparr>sm_type = ''balance-percentage'', sm_value = Some 5, sm_baseSize = None\<rparr>,
      sig_riskModel = \<lparr>rm_stopLoss = None, rm_takeProfit = None\<rparr>,
      sig_signalHash = None, sig_creatorAddress = None, sig_proofOfIntentTxHash = None\<rparr>"

definition demoDeployment :: Deployment where
  "demoDeployment =
     \<lparr>dep_id = ''d1'', dep_agentId = ''a1'', dep_userWallet = ''0xUser'',
      dep_safeWallet = ''0xSafe'', dep_moduleAddress = Some ''0xModule'',
      dep_moduleEnabled = True, dep_status = ACTIVE, dep_subActive = True\<rparr>"

definition demoDb :: db where
  "demoDb =
     \<lparr>signals = [demoSignal], agents = (\<lambda>i. demoAgent), deployments = [demoDeployment],
      positions = [],
      venueStatus = [\<lparr>vs_venue = SPOT, vs_tokenSymbol = ''WETH'', vs_minSize = None\<rparr>],
      tokenRegistry = [\<lparr>tok_chain = ''base'', tok_tokenSymbol = ''WETH'',
                        tok_tokenAddress = ''0xWETH'', tok_decimals = 18\<rparr>],
      billingEvents = []\<rparr>"

definition demoEnv :: env where
  "demoEnv =
     \<lparr>chainOf = demoChain,
      EXECUTOR_PRIVATE_KEY = Some ''key'',
      executorOf = (\<lambda>k. Inr ''0xExec''),
      getChainIdForVenue = (\<lambda>v. 8453),
      validateSafe = (\<lambda>safe c. Inr (True, [])),
      getUSDCBalance = (\<lambda>safe c. Inr 1000),
      getExecutionSummary =
        (\<lambda>s safe. Inr \<lparr>es_canExecute = True, es_reason = None, es_usdcBalance = Some 1000\<rparr>),
      getQuote = (\<lambda>i out a. Inr (2 * 10 ^ 16)),
      calculateMinAmountOut = (\<lambda>q bps. q div 2),
      buildApprovalTx = (\<lambda>t a. Inr ''0xapprove''),
      buildSwapTx = (\<lambda>i out a m r. Inr ''0xswap''),
      buildCloseSwapTx = (\<lambda>i out a r. Inr ''0xclose''),
      getRouterAddress = (\<lambda>c. Some ''0xRouter''),
      parseUnits6 = (\<lambda>x. nat \<lfloor>x * 1000000\<rfloor>),
      toFixed = (\<lambda>n x. ''#''),
      numToString = (\<lambda>x. ''#''),
      intentHash = (\<lambda>s a n. Inr ''0xintent''),
      getTokenPriceUSD = (\<lambda>s. Some 2600),
      getMarketPrice = (\<lambda>s. None),
      now = 1700000000,
      toISOString = (\<lambda>t. ''2023-11-14T22:13:20.000Z''),
      gen_random_uuid = (\<lambda>ps. ''p'' @ replicate (length ps) (CHR ''i''))\<rparr>"

text \<open>
  The same world on a chain that rejects every transaction and on which the Safe
  answers that the trading module is not enabled.
\<close>

definition revertingChain :: chain where
  "revertingChain =
     demoChain\<lparr>submit := (\<lambda>log tx. Inl ''execution reverted''),
               isModuleEnabled := (\<lambda>log safe. Inr False)\<rparr>"

definition revertingEnv :: env where
  "revertingEnv = demoEnv\<lparr>chainOf := revertingChain\<rparr>"

text \<open>The concrete store holding the open example position.\<close>

definition openDb :: db where
  "openDb = demoDb\<lparr>positions := [long100]\<rparr>"



section \<open>Unfolding the model on concrete inputs\<close>

lemmas gw_defs = executeTrade_def executeTradeWithIntent_def closePositionOnChain_def
  initializeCapital_def approveTokenForDex_def setTokenWhitelist_def checkTokenWhitelist_def
  checkTokenApproval_def getSafeStats_def nextNonce_def sendTx_def getNextNonce_def
  tradeFailure_def setupSuccess_def msg_or_def truthy_def approveData_def

lemmas demo_defs = demoEnv_def demoDb_def demoChain_def demoSignal_def demoDeployment_def
  demoAgent_def gwInit_def okReceipt_def openDb_def long100_def newTrailing_def


lemmas open_defs = executeSignalForDeployment_def executeSignalInternal_def routeToVenue_def
  executeSpotTrade_def spotPrepare_def spotService_def autoSetup_def spotPersist_def newPosition_def
  intentUpdate_def createdResult_def submissionFailure_def
  spotTradeParams_def sizeChecks_def positionSize_def preTradeValidation_def
  position_create_def signal_update_def findSignal_def findPositionFor_def findVenueStatus_def
  actualTokenSymbol_def chainName_def num_or_def numTruthy_def

section \<open>Properties of the nonce coordinator\<close>

lemma getNextNonce_result:
  "\<exists>r t'. getNextNonce a net t = (r, t') \<and>
     (case r of
        Inl e \<Rightarrow> t' a = t a
      | Inr n \<Rightarrow> t' a = Some n \<and> (\<forall>c. t a = Some c \<longrightarrow> c < n))"
  by (auto simp: getNextNonce_def Let_def split: option.splits sum.splits)

lemma acquireAll_above:
  "\<exists>rs t'. acquireAll a nets t = (rs, t') \<and> length rs = length nets \<and>
     sorted_wrt (<) (issued rs) \<and>
     (\<forall>c. t a = Some c \<longrightarrow> (\<forall>n \<in> set (issued rs). c < n))"
proof (induction nets arbitrary: t)
  case Nil
  show ?case by simp
next
  case (Cons net nets)
  from getNextNonce_result [of a net t]
  obtain r t1 where g: "getNextNonce a net t = (r, t1)"
    and c: "(case r of Inl e \<Rightarrow> t1 a = t a
             | Inr n \<Rightarrow> t1 a = Some n \<and> (\<forall>c. t a = Some c \<longrightarrow> c < n))"
    by blast
  from Cons.IH [of t1]
  obtain rs t2 where a: "acquireAll a nets t1 = (rs, t2)" and len: "length rs = length nets"
    and srt: "sorted_wrt (<) (issued rs)"
    and ab: "\<forall>c. t1 a = Some c \<longrightarrow> (\<forall>n \<in> set (issued rs). c < n)"
    by blast
  have eq: "acquireAll a (net # nets) t = (r # rs, t2)"
    using g a by simp
  show ?case
  proof (cases r)
    case (Inl e)
    then show ?thesis using eq len srt ab c by simp
  next
    case (Inr n)
    then have t1: "t1 a = Some n" using c by simp
    have lo: "\<forall>c. t a = Some c \<longrightarrow> c < n" using c Inr by simp
    have "\<forall>m \<in> set (issued rs). n < m" using ab t1 by simp
    then show ?thesis using eq len srt Inr lo by fastforce
  qed
qed

lemma acquireAll_spec:
  "t a = Some c \<Longrightarrow> fst (acquireAll a (map Inr ns) t) = map Inr (nonce_spec c ns)"
proof (induction ns arbitrary: t c)
  case Nil
  show ?case by simp
next
  case (Cons n ns)
  let ?x = "max (c + 1) n"
  have g: "getNextNonce a (Inr n) t = (Inr ?x, t(a \<mapsto> ?x))"
    using Cons.prems by (auto simp: getNextNonce_def Let_def max_def)
  obtain rs t2 where r: "acquireAll a (map Inr ns) (t(a \<mapsto> ?x)) = (rs, t2)"
    by (cases "acquireAll a (map Inr ns) (t(a \<mapsto> ?x))") blast
  have "(t(a \<mapsto> ?x)) a = Some ?x" by simp
  from Cons.IH [of "t(a \<mapsto> ?x)" ?x, OF this]
  have "rs = map Inr (nonce_spec ?x ns)" unfolding r by simp
  then show ?case using g r by simp
qed

text \<open>
  C4. Serialized acquisitions on one executor address hand out strictly increasing
  nonces without duplicates, whatever the network reads return and whichever of them
  throw. Starting without a cached nonce, the first acquisition returns the on-chain
  count \<open>n\<close>, and each later one the maximum of the cached nonce plus one and the count
  read in that call.
\<close>

theorem nonce_monotonic:
  "sorted_wrt (<) (issued (fst (acquireAll a nets t))) \<and>
   distinct (issued (fst (acquireAll a nets t))) \<and>
   length (fst (acquireAll a nets t)) = length nets \<and>
   fst (getNextNonce a (Inr n) (t(a := None))) = Inr n \<and>
   fst (getNextNonce a (Inr n) (t(a \<mapsto> c))) = Inr (max (c + 1) n) \<and>
   fst (acquireAll a (map Inr (n # ns)) (t(a := None))) = map Inr (n # nonce_spec n ns)"
proof -
  from acquireAll_above [of a nets t]
  obtain rs t' where a: "acquireAll a nets t = (rs, t')" "length rs = length nets"
      "sorted_wrt (<) (issued rs)" by blast
  have d: "distinct (issued rs)" using a(3) by (simp add: strict_sorted_iff)
  have g: "getNextNonce a (Inr n) (t(a := None)) = (Inr n, t(a \<mapsto> n))"
    by (simp add: getNextNonce_def)
  have g2: "fst (getNextNonce a (Inr n) (t(a \<mapsto> c))) = Inr (max (c + 1) n)"
    by (auto simp: getNextNonce_def Let_def max_def)
  have "(t(a \<mapsto> n)) a = Some n" by simp
  from acquireAll_spec [of "t(a \<mapsto> n)" a n ns, OF this]
  have "fst (acquireAll a (map Inr (n # ns)) (t(a := None))) = map Inr (n # nonce_spec n ns)"
    by (cases "acquireAll a (map Inr ns) (t(a \<mapsto> n))") (simp add: g)
  with a d g g2 show ?thesis by simp
qed

theorem nonce_monotonic_witness:
  "fst (acquireAll ''0xE'' (map Inr [7, 3, 12, 12]) Map.empty) = map Inr [7, 8, 12, 13] \<and>
   sorted_wrt (<) (issued (fst (acquireAll ''0xE'' [Inr 7, Inl ''timeout'', Inr 3] Map.empty)))"
  using nonce_monotonic [of "''0xE''" "[Inr 7, Inl ''timeout'', Inr 3]" Map.empty 7 0 "[3, 12, 12]"]
  by simp

section \<open>Properties of the gateway\<close>

lemma nextNonce_txlog: "txlog (snd (nextNonce ch ex st)) = txlog st"
  by (simp add: nextNonce_def split: prod.splits)

lemma sendTx_txlog: "txlog (snd (sendTx ch tx st)) = txlog st @ [tx]"
  by (simp add: sendTx_def)

lemma executeTradeWithIntent_log:
  "txlog (snd (executeTradeWithIntent ch ex p st)) = txlog st \<or>
   (\<exists>n. txlog (snd (executeTradeWithIntent ch ex p st)) =
      txlog st @ [\<lparr>call = ExecuteTradeWithIntent (safeAddress p) (signalHash p)
                          (creatorAddress p) (fromToken p) (toToken p) (amountIn p)
                          (minAmountOut p) 3000,
                  gasLimit = Some 1000000, nonce = Some n\<rparr>])"
proof (cases "nextNonce ch ex st")
  case (Pair r st1)
  have l1: "txlog st1 = txlog st" using nextNonce_txlog [of ch ex st] Pair by simp
  show ?thesis
  proof (cases r)
    case (Inl e)
    then show ?thesis using Pair l1 by (simp add: executeTradeWithIntent_def)
  next
    case (Inr n)
    then show ?thesis using Pair l1
      by (auto simp: executeTradeWithIntent_def sendTx_def split: sum.splits)
  qed
qed

lemma executeTrade_log:
  "txlog (snd (executeTrade ch ex p st)) = txlog st \<or>
   (\<exists>n. txlog (snd (executeTrade ch ex p st)) =
      txlog st @ [\<lparr>call = ExecuteTradeWithIntent (safeAddress p) (signalHash p)
                          (creatorAddress p) (fromToken p) (toToken p) (amountIn p)
                          (minAmountOut p) 3000,
                  gasLimit = Some 1000000, nonce = Some n\<rparr>]) \<or>
   (\<exists>n. txlog (snd (executeTrade ch ex p st)) =
      txlog st @ [\<lparr>call = ExecuteTrade (safeAddress p) (fromToken p) (toToken p)
                          (amountIn p) (minAmountOut p) 3000 (profitReceiver p),
                  gasLimit = Some 1000000, nonce = Some n\<rparr>])"
proof (cases "truthy (signalHash p) \<and> truthy (creatorAddress p)")
  case True
  then show ?thesis using executeTradeWithIntent_log [of ch ex p st]
    by (auto simp: executeTrade_def)
next
  case False
  show ?thesis
  proof (cases "nextNonce ch ex st")
    case (Pair r st1)
    have l1: "txlog st1 = txlog st" using nextNonce_txlog [of ch ex st] Pair by simp
    show ?thesis
    proof (cases r)
      case (Inl e)
      then show ?thesis using Pair l1 False by (auto simp: executeTrade_def)
    next
      case (Inr n)
      then show ?thesis using Pair l1 False
        by (auto simp: executeTrade_def sendTx_def split: sum.splits)
    qed
  qed
qed

lemma closePositionOnChain_log:
  "txlog (snd (closePositionOnChain ch ex p st)) = txlog st \<or>
   (\<exists>n. txlog (snd (closePositionOnChain ch ex p st)) =
      txlog st @ [\<lparr>call = ClosePosition (cp_safeAddress p) (cp_tokenIn p) (cp_tokenOut p)
                          (cp_amountIn p) (cp_minAmountOut p) 3000 (cp_profitReceiver p)
                          (cp_entryValueUSDC p),
                  gasLimit = Some 1000000, nonce = Some n\<rparr>])"
proof (cases "nextNonce ch ex st")
  case (Pair r st1)
  have l1: "txlog st1 = txlog st" using nextNonce_txlog [of ch ex st] Pair by simp
  show ?thesis
  proof (cases r)
    case (Inl e)
    then show ?thesis using Pair l1 by (simp add: closePositionOnChain_def)
  next
    case (Inr n)
    then show ?thesis using Pair l1
      by (auto simp: closePositionOnChain_def sendTx_def split: sum.splits)
  qed
qed

text \<open>
  C10. Whatever the chain answers and whatever the parameters are, each of
  \<open>executeTrade\<close>, \<open>executeTradeWithIntent\<close> and \<open>closePosition\<close> only extends the log of
  submitted transactions, and every transaction it adds is a swap call whose pool fee
  argument is 3000. No parameter of the three operations carries a fee tier.
\<close>

theorem swap_pool_fee_3000:
  "(\<exists>new. txlog (snd (executeTrade ch ex p st)) = txlog st @ new \<and>
          (\<forall>tx \<in> set new. poolFee_of (call tx) = Some 3000)) \<and>
   (\<exists>new. txlog (snd (executeTradeWithIntent ch ex p st)) = txlog st @ new \<and>
          (\<forall>tx \<in> set new. poolFee_of (call tx) = Some 3000)) \<and>
   (\<exists>new. txlog (snd (closePositionOnChain ch ex q st)) = txlog st @ new \<and>
          (\<forall>tx \<in> set new. poolFee_of (call tx) = Some 3000))"
proof (intro conjI)
  show "\<exists>new. txlog (snd (executeTrade ch ex p st)) = txlog st @ new \<and>
          (\<forall>tx \<in> set new. poolFee_of (call tx) = Some 3000)"
    using executeTrade_log [of ch ex p st] by (elim disjE exE) force+
  show "\<exists>new. txlog (snd (executeTradeWithIntent ch ex p st)) = txlog st @ new \<and>
          (\<forall>tx \<in> set new. poolFee_of (call tx) = Some 3000)"
    using executeTradeWithIntent_log [of ch ex p st] by (elim disjE exE) force+
  show "\<exists>new. txlog (snd (closePositionOnChain ch ex q st)) = txlog st @ new \<and>
          (\<forall>tx \<in> set new. poolFee_of (call tx) = Some 3000)"
    using closePositionOnChain_log [of ch ex q st] by (elim disjE exE) force+
qed

theorem swap_pool_fee_3000_witness:
  "map (\<lambda>tx. poolFee_of (call tx))
     (txlog (snd (executeTrade demoChain ''0xExec'' demoTradeParams gwInit))) = [Some 3000] \<and>
   map (\<lambda>tx. poolFee_of (call tx))
     (txlog (snd (executeTrade demoChain ''0xExec''
        (demoTradeParams\<lparr>signalHash := None\<rparr>) gwInit))) = [Some 3000] \<and>
   map (\<lambda>tx. poolFee_of (call tx))
     (txlog (snd (closePositionOnChain demoChain ''0xExec'' demoCloseParams gwInit))) = [Some 3000]"
proof -
  have e1: "\<exists>tx. txlog (snd (executeTrade demoChain ''0xExec'' demoTradeParams gwInit)) = [tx]"
    by (simp add: executeTrade_def executeTradeWithIntent_def nextNonce_def sendTx_def
        getNextNonce_def demoChain_def demoTradeParams_def gwInit_def truthy_def)
  have e2: "\<exists>tx. txlog (snd (executeTrade demoChain ''0xExec''
        (demoTradeParams\<lparr>signalHash := None\<rparr>) gwInit)) = [tx]"
    by (simp add: executeTrade_def nextNonce_def sendTx_def
        getNextNonce_def demoChain_def demoTradeParams_def gwInit_def truthy_def)
  have e3: "\<exists>tx. txlog (snd (closePositionOnChain demoChain ''0xExec'' demoCloseParams gwInit)) = [tx]"
    by (simp add: closePositionOnChain_def nextNonce_def sendTx_def
        getNextNonce_def demoChain_def gwInit_def)
  have g: "txlog gwInit = []" by (simp add: gwInit_def)
  from swap_pool_fee_3000 [of demoChain "''0xExec''" demoTradeParams gwInit demoCloseParams]
       swap_pool_fee_3000 [of demoChain "''0xExec''" "demoTradeParams\<lparr>signalHash := None\<rparr>"
          gwInit demoCloseParams]
       e1 e2 e3 g
  show ?thesis by auto
qed

section \<open>Position sizing and pre-trade validation\<close>

text \<open>
  C7. Position sizing in \<open>executeSpotTrade\<close>. With a balance of 1000, the size model
  \<open>{type: balance-percentage, value: 5}\<close> gives a requested notional of 50, and
  \<open>{type: fixed-usdc, value: 30}\<close> gives 30; both pass the size checks. The model
  \<open>{type: fixed-usdc, value: 2000}\<close> asks for 2000, is not cut down to the balance, and
  is rejected with the reason that the requested amount exceeds the wallet balance. On
  the concrete world the percentage model yields a plan of size 50, and the oversized fixed
  amount makes \<open>executeSpotTrade\<close> return that failure with the store and the gateway
  untouched.
\<close>

theorem position_sizing:
  "sizeChecks e \<lparr>sm_type = ''balance-percentage'', sm_value = Some 5, sm_baseSize = b\<rparr> 1000
     = Inr 50 \<and>
   sizeChecks e \<lparr>sm_type = ''fixed-usdc'', sm_value = Some 30, sm_baseSize = b\<rparr> 1000 = Inr 30 \<and>
   positionSize \<lparr>sm_type = ''fixed-usdc'', sm_value = Some 2000, sm_baseSize = b\<rparr> 1000 = 2000 \<and>
   (\<exists>r. sizeChecks e \<lparr>sm_type = ''fixed-usdc'', sm_value = Some 2000, sm_baseSize = b\<rparr> 1000
          = Inl r \<and>
        \<not> success r \<and> reason r = Some ''Requested amount exceeds wallet balance'') \<and>
   (\<exists>p. spotPrepare demoEnv demoDb demoSignal demoDeployment = Inr p \<and>
        plan_positionSize p = 50) \<and>
   (\<exists>r. executeSpotTrade demoEnv
          (demoSignal\<lparr>sig_sizeModel :=
             \<lparr>sm_type = ''fixed-usdc'', sm_value = Some 2000, sm_baseSize = None\<rparr>\<rparr>)
          demoAgent demoDeployment demoDb gwInit = (r, demoDb, gwInit) \<and>
        \<not> success r \<and> reason r = Some ''Requested amount exceeds wallet balance'')"
  by (simp add: sizeChecks_def positionSize_def num_or_def Let_def executeSpotTrade_def
      spotPrepare_def spotService_def demoEnv_def demoSignal_def demoDb_def demoDeployment_def findToken_def
      actualTokenSymbol_def chainName_def truthy_def)



section \<open>What the operations add to the transaction log\<close>

lemma logAdds_refl: "logAdds st st P"
  by (simp add: logAdds_def)

lemma logAdds_trans: "logAdds a b P \<Longrightarrow> logAdds b c P \<Longrightarrow> logAdds a c P"
  by (auto simp: logAdds_def)

lemma logAdds_mono: "logAdds a b P \<Longrightarrow> (\<And>c. P c \<Longrightarrow> Q c) \<Longrightarrow> logAdds a b Q"
  by (auto simp: logAdds_def list_all_iff)

lemma logAdds_length: "logAdds a b P \<Longrightarrow> length (txlog a) \<le> length (txlog b)"
  by (auto simp: logAdds_def)

lemma initializeCapital_adds:
  "logAdds st (snd (initializeCapital ch safe st)) (\<lambda>c. c = InitializeCapital safe)"
  by (auto simp: initializeCapital_def sendTx_def logAdds_def split: sum.splits)

lemma setTokenWhitelist_adds:
  "logAdds st (snd (setTokenWhitelist ch ex safe token en st)) (\<lambda>c. c = SetTokenWhitelist safe token en)"
proof (cases "nextNonce ch ex st")
  case (Pair r st1)
  have l1: "txlog st1 = txlog st" using nextNonce_txlog [of ch ex st] Pair by simp
  show ?thesis using Pair l1
    by (cases r) (auto simp: setTokenWhitelist_def sendTx_def logAdds_def split: sum.splits)
qed

lemma approveTokenForDex_adds:
  "logAdds st (snd (approveTokenForDex ch ex safe token router st))
     (\<lambda>c. c = ExecuteFromModule safe token 0 (approveData router))"
proof (cases "nextNonce ch ex st")
  case (Pair r st1)
  have l1: "txlog st1 = txlog st" using nextNonce_txlog [of ch ex st] Pair by simp
  show ?thesis using Pair l1
    by (cases r) (auto simp: approveTokenForDex_def sendTx_def logAdds_def split: sum.splits)
qed

lemma executeTrade_adds:
  "logAdds st (snd (executeTrade ch ex p st))
     (\<lambda>c. is_open c \<and> call_safe c = safeAddress p)"
  using executeTrade_log [of ch ex p st]
  by (elim disjE exE) (auto simp: logAdds_def)


lemma executeTradeWithIntent_success:
  assumes "tr_success (fst (executeTradeWithIntent ch ex p st))"
  shows "\<exists>tx rc. txlog (snd (executeTradeWithIntent ch ex p st)) = txlog st @ [tx] \<and>
           is_open (call tx) \<and> submit ch (txlog st) tx = Inr rc"
proof (cases "nextNonce ch ex st")
  case (Pair r st1)
  have l1: "txlog st1 = txlog st" using nextNonce_txlog [of ch ex st] Pair by simp
  show ?thesis using Pair l1 assms
    by (cases r)
       (auto simp: executeTradeWithIntent_def sendTx_def tradeFailure_def split: sum.splits)
qed

lemma executeTrade_success:
  assumes "tr_success (fst (executeTrade ch ex p st))"
  shows "\<exists>tx rc. txlog (snd (executeTrade ch ex p st)) = txlog st @ [tx] \<and>
           is_open (call tx) \<and> submit ch (txlog st) tx = Inr rc"
proof (cases "truthy (signalHash p) \<and> truthy (creatorAddress p)")
  case True
  then show ?thesis using executeTradeWithIntent_success [of ch ex p st] assms
    by (auto simp: executeTrade_def)
next
  case False
  show ?thesis
  proof (cases "nextNonce ch ex st")
    case (Pair r st1)
    have l1: "txlog st1 = txlog st" using nextNonce_txlog [of ch ex st] Pair by simp
    show ?thesis using Pair l1 assms False
      by (cases r) (auto simp: executeTrade_def sendTx_def tradeFailure_def split: sum.splits)
  qed
qed

lemma autoSetup_adds:
  "logAdds st (autoSetup e dep plan st)
     (\<lambda>c. \<not> is_open c \<and> \<not> is_close c \<and> call_safe c = dep_safeWallet dep)"
proof -
  let ?P = "\<lambda>c. \<not> is_open c \<and> \<not> is_close c \<and> call_safe c = dep_safeWallet dep"
  let ?ch = "chainOf e" and ?safe = "dep_safeWallet dep" and ?ex = "plan_executor plan"
  let ?token = "tok_tokenAddress (plan_token plan)"
  define st1 where "st1 = (case getSafeStats ?ch ?safe st of
                   Inl msg \<Rightarrow> st
                 | Inr initialized \<Rightarrow>
                     if \<not> initialized then snd (initializeCapital ?ch ?safe st) else st)"
  define st2 where "st2 = (if \<not> checkTokenWhitelist ?ch ?safe ?token st1
                 then snd (setTokenWhitelist ?ch ?ex ?safe ?token True st1) else st1)"
  have a1: "logAdds st st1 ?P"
    unfolding st1_def
    using logAdds_mono [where Q = ?P, OF initializeCapital_adds [of st ?ch ?safe]]
    by (auto simp: logAdds_refl split: sum.splits)
  have a2: "logAdds st1 st2 ?P"
    unfolding st2_def
    using logAdds_mono [where Q = ?P, OF setTokenWhitelist_adds [of st1 ?ch ?ex ?safe ?token True]]
    by (auto simp: logAdds_refl)
  have a3: "logAdds st2 (snd (approveTokenForDex ?ch ?ex ?safe (plan_usdcAddress plan)
              (plan_routerAddress plan) st2)) ?P"
    using logAdds_mono [where Q = ?P, OF approveTokenForDex_adds] by auto
  have "autoSetup e dep plan st = snd (approveTokenForDex ?ch ?ex ?safe (plan_usdcAddress plan)
              (plan_routerAddress plan) st2)"
    by (simp add: autoSetup_def Let_def st1_def st2_def)
  then show ?thesis using logAdds_trans [OF logAdds_trans [OF a1 a2] a3] by simp
qed

section \<open>Properties of opening\<close>

lemma sizeChecks_Inl: "sizeChecks e sm b = Inl r \<Longrightarrow> \<not> success r \<and> error r \<noteq> None"
  by (auto simp: sizeChecks_def Let_def split: if_splits)

lemma failure_facts: "\<not> success (failure m)" "error (failure m) = Some m"
  by (simp_all add: failure_def)

lemma spotService_Inl:
  "spotService e c key plan = Inl r \<Longrightarrow> \<not> success r \<and> error r \<noteq> None"
  by (auto simp: spotService_def failure_facts split: sum.splits option.splits if_splits)

lemma spotPrepare_Inl:
  assumes "spotPrepare e d s dep = Inl r"
  shows "\<not> success r \<and> error r \<noteq> None"
  using assms sizeChecks_Inl spotService_Inl
  unfolding spotPrepare_def Let_def
  by (auto simp: failure_facts split: sum.splits option.splits if_splits)

lemma accepted_last:
  assumes "logAdds st st1 P" "txlog st2 = txlog st1 @ [tx]" "is_open (call tx)"
    "submit ch (txlog st1) tx = Inr rc"
  shows "accepted ch st st2"
proof -
  let ?i = "length (txlog st1)"
  have le: "length (txlog st) \<le> ?i" using logAdds_length [OF assms(1)] .
  have "?i \<in> set [length (txlog st) ..< length (txlog st2)]" using le assms(2) by simp
  moreover have "txlog st2 ! ?i = tx" "take ?i (txlog st2) = txlog st1"
    using assms(2) by simp_all
  ultimately show ?thesis using assms(3,4)
    unfolding accepted_def list_ex_iff by (intro bexI [of _ ?i]) auto
qed


lemma executeSpotTrade_cases:
  assumes "executeSpotTrade e s a dep d st = (r, d', st')"
  shows "logAdds st st' (\<lambda>c. call_safe c = dep_safeWallet dep) \<and>
         ((d' = d \<and> \<not> success r \<and> error r \<noteq> None) \<or>
          (accepted (chainOf e) st st' \<and>
           (\<exists>plan intent result. (r, d') = spotPersist e s a dep plan intent result d)))"
proof (cases "spotPrepare e d s dep")
  case (Inl r0)
  then have "r = r0" "d' = d" "st' = st" using assms by (simp_all add: executeSpotTrade_def)
  then show ?thesis using spotPrepare_Inl [OF Inl] by (simp add: logAdds_refl)
next
  case (Inr plan)
  let ?P = "\<lambda>c. call_safe c = dep_safeWallet dep"
  define st1 where "st1 = autoSetup e dep plan st"
  have a1: "logAdds st st1 ?P"
    unfolding st1_def using logAdds_mono [where Q = ?P, OF autoSetup_adds] by auto
  show ?thesis
  proof (cases "intentHash e s a (plan_amountIn plan)")
    case (Inl msg)
    then have "r = failure msg" "d' = d" "st' = st1"
      using assms Inr by (simp_all add: executeSpotTrade_def Let_def st1_def)
    then show ?thesis using a1 by (simp add: failure_facts)
  next
    case intent: (Inr intent)
    let ?tp = "spotTradeParams a dep plan intent"
    obtain result st2 where et: "executeTrade (chainOf e) (plan_executor plan) ?tp st1 = (result, st2)"
      by (cases "executeTrade (chainOf e) (plan_executor plan) ?tp st1") blast
    have sa: "safeAddress ?tp = dep_safeWallet dep" by (simp add: spotTradeParams_def)
    have a2: "logAdds st1 st2 ?P"
      using logAdds_mono [where Q = ?P, OF executeTrade_adds [of st1 "chainOf e" "plan_executor plan" ?tp]]
        et sa by auto
    have a: "logAdds st st2 ?P" using logAdds_trans [OF a1 a2] .
    show ?thesis
    proof (cases "tr_success result")
      case False
      then have "d' = d" "st' = st2" "\<not> success r" "error r \<noteq> None"
        using assms Inr intent et
        by (auto simp: executeSpotTrade_def Let_def st1_def submissionFailure_def failure_facts)
      then show ?thesis using a by simp
    next
      case True
      then have p: "(r, d') = spotPersist e s a dep plan intent result d" and s2: "st' = st2"
        using assms Inr intent et
        by (auto simp: executeSpotTrade_def Let_def st1_def split: prod.splits)
      from executeTrade_success [of "chainOf e" "plan_executor plan" ?tp st1] True et
      obtain tx rc where "txlog st2 = txlog st1 @ [tx]" "is_open (call tx)"
        "submit (chainOf e) (txlog st1) tx = Inr rc" by auto
      from accepted_last [OF a1 this] have "accepted (chainOf e) st st2" .
      then show ?thesis using a p s2 by blast
    qed
  qed
qed

lemma executeSignalForDeployment_cases:
  assumes "executeSignalForDeployment e sid did d st = (r, d', st')"
  shows "(d' = d \<and> st' = st \<and> \<not> success r \<and> error r \<noteq> None) \<or>
         (\<exists>s dep. findSignal d sid = Some s \<and> findDeployment d did = Some dep \<and>
            executeSpotTrade e s (agents d (sig_agentId s)) dep d st = (r, d', st'))"
  using assms
  by (auto simp: executeSignalForDeployment_def executeSignalInternal_def routeToVenue_def
        Let_def failure_facts split: option.splits sum.splits if_splits venue.splits)

text \<open>
  C6. Take an invocation of \<open>executeSignalForDeployment\<close> in which no opening swap was
  accepted by the chain: it ended in a validation, in a failing read, quote or build, in
  missing configuration, or its swap was submitted and rejected. Then the store after
  the invocation is the store before it (no position row, no change to the signal), and
  the result has \<open>success = false\<close> and carries an error message. Invoking it again
  therefore starts from the same store.
\<close>

theorem open_failure_persists_nothing:
  assumes "\<not> accepted (chainOf e) st (snd (snd (executeSignalForDeployment e sid did d st)))"
  shows "fst (snd (executeSignalForDeployment e sid did d st)) = d \<and>
         \<not> success (fst (executeSignalForDeployment e sid did d st)) \<and>
         error (fst (executeSignalForDeployment e sid did d st)) \<noteq> None"
proof -
  obtain r d' st' where run: "executeSignalForDeployment e sid did d st = (r, d', st')"
    by (cases "executeSignalForDeployment e sid did d st") auto
  have na: "\<not> accepted (chainOf e) st st'" using assms run by simp
  from executeSignalForDeployment_cases [OF run]
  have "d' = d \<and> \<not> success r \<and> error r \<noteq> None"
  proof
    assume "d' = d \<and> st' = st \<and> \<not> success r \<and> error r \<noteq> None"
    then show ?thesis by simp
  next
    assume "\<exists>s dep. findSignal d sid = Some s \<and> findDeployment d did = Some dep \<and>
            executeSpotTrade e s (agents d (sig_agentId s)) dep d st = (r, d', st')"
    then obtain s dep where "executeSpotTrade e s (agents d (sig_agentId s)) dep d st = (r, d', st')"
      by blast
    from executeSpotTrade_cases [OF this] na show ?thesis by blast
  qed
  then show ?thesis using run by simp
qed

theorem open_failure_persists_nothing_witness:
  "\<not> accepted (chainOf revertingEnv) gwInit
       (snd (snd (executeSignalForDeployment revertingEnv ''s1'' ''d1'' demoDb gwInit))) \<and>
   length (txlog (snd (snd (executeSignalForDeployment revertingEnv ''s1'' ''d1'' demoDb gwInit)))) = 2 \<and>
   fst (snd (executeSignalForDeployment revertingEnv ''s1'' ''d1'' demoDb gwInit)) = demoDb \<and>
   error (fst (executeSignalForDeployment revertingEnv ''s1'' ''d1'' demoDb gwInit)) =
     Some ''execution reverted''"
proof -
  have l: "txlog (snd (snd (executeSignalForDeployment revertingEnv ''s1'' ''d1'' demoDb gwInit))) =
      [\<lparr>call = ExecuteFromModule ''0xSafe'' ''0x833589fCD6eDb6E08f4c7C32D4f71b54bdA02913'' 0
                 (approveData ''0xRouter''),
        gasLimit = Some 300000, nonce = Some 0\<rparr>,
       \<lparr>call = ExecuteTradeWithIntent ''0xSafe'' (Some ''0xintent'') (Some ''0xCreator'')
                 ''0x833589fCD6eDb6E08f4c7C32D4f71b54bdA02913'' ''0xWETH'' 50000000 (10 ^ 16) 3000,
        gasLimit = Some 1000000, nonce = Some 1\<rparr>]"
    by (simp add: open_defs gw_defs demo_defs revertingEnv_def revertingChain_def
        findDeployment_def findToken_def USDC_ADDRESSES_def failure_def Let_def)
  have e: "error (fst (executeSignalForDeployment revertingEnv ''s1'' ''d1'' demoDb gwInit)) =
     Some ''execution reverted''"
    by (simp add: open_defs gw_defs demo_defs revertingEnv_def revertingChain_def
        findDeployment_def findToken_def USDC_ADDRESSES_def failure_def Let_def)
  have na: "\<not> accepted (chainOf revertingEnv) gwInit
       (snd (snd (executeSignalForDeployment revertingEnv ''s1'' ''d1'' demoDb gwInit)))"
    unfolding accepted_def l
    by (simp add: revertingEnv_def revertingChain_def gwInit_def demoEnv_def demoChain_def)
  from open_failure_persists_nothing [OF na] na e l show ?thesis by simp
qed

section \<open>Properties of closing\<close>













section \<open>Properties of the execute-trade endpoint\<close>








text \<open>
  The stored flag follows the chain only through the sync: after it, a deployment with a
  Safe whose read answered carries the Safe's answer.
\<close>

lemma syncDeployment_agrees:
  assumes "dep_safeWallet x \<noteq> []" "isModuleEnabled ch txs (dep_safeWallet x) = Inr b"
  shows "dep_moduleEnabled (syncDeployment ch txs x) = b"
  using assms by (auto simp: syncDeployment_def)

section \<open>Uniqueness of the position of a deployment and signal\<close>

































lemma race_alone_spotPersist:
  assumes "tr_success (results 0)"
  shows "fst (race e s a dep plans intents results [0, 0] (d, [Trading])) =
           snd (spotPersist e s a dep (plans 0) (intents 0) (results 0) d) \<and>
         map taskResult (snd (race e s a dep plans intents results [0, 0] (d, [Trading]))) =
           [Some (fst (spotPersist e s a dep (plans 0) (intents 0) (results 0) d))]"
  using assms
  by (auto simp: raceStep_def spotPersist_def split: sum.splits)



section \<open>Properties of the position monitor\<close>











end
